theory Spec2Isabelle
  imports Main
begin

section \<open>Time values of the JavaScript \<^verbatim>\<open>Date\<close> object\<close>

text \<open>
  \<^verbatim>\<open>server.js\<close> computes every expiry with
  \<^verbatim>\<open>new Date(now.setMonth(now.getMonth() + months))\<close>.
  A \<^verbatim>\<open>Date\<close> holds a time value: the milliseconds since 1970-01-01T00:00Z, or
  NaN (an invalid date). Time values are integers here and the invalid date is \<open>None\<close>.
  The functions below are the abstract operations of ECMA-262 (section "Date Objects")
  under their own names. \<open>YearFromTime\<close> is specified there as the largest year whose
  first day is not after the time value; \<open>year_search\<close> finds it by walking up from an
  estimate that is never too large.
\<close>

definition msPerDay :: int where
  "msPerDay = 86400000"

definition Day :: "int \<Rightarrow> int" where
  "Day t = t div msPerDay"

definition TimeWithinDay :: "int \<Rightarrow> int" where
  "TimeWithinDay t = t mod msPerDay"

definition DaysInYear :: "int \<Rightarrow> int" where
  "DaysInYear y =
     (if y mod 4 \<noteq> 0 then 365
      else if y mod 100 \<noteq> 0 then 366
      else if y mod 400 \<noteq> 0 then 365
      else 366)"

definition DayFromYear :: "int \<Rightarrow> int" where
  "DayFromYear y =
     365 * (y - 1970) + (y - 1969) div 4 - (y - 1901) div 100 + (y - 1601) div 400"

lemma div_step:
  fixes a c :: int
  assumes c: "1 < c"
  shows "(a + 1) div c = a div c + (if (a + 1) mod c = 0 then 1 else 0)"
proof -
  define q where "q = a div c"
  define r where "r = a mod c"
  have r: "0 \<le> r" "r < c" using c by (simp_all add: r_def)
  have a: "a = q * c + r" by (simp add: q_def r_def)
  show ?thesis
  proof (cases "r + 1 = c")
    case True
    then have "a + 1 = (q + 1) * c" using a by (simp add: algebra_simps)
    then have "(a + 1) div c = q + 1" "(a + 1) mod c = 0" using c by simp_all
    then show ?thesis by (simp add: q_def)
  next
    case False
    then have lt: "r + 1 < c" using r by simp
    have e: "a + 1 = (r + 1) + q * c" using a by simp
    have "(a + 1) div c = q" unfolding e using lt r c by simp
    moreover have "(a + 1) mod c = r + 1" unfolding e using lt r by simp
    ultimately show ?thesis using r by (simp add: q_def)
  qed
qed

lemma mod_shift:
  fixes y c k :: int
  shows "(y - c * k) mod c = y mod c"
  using mod_mult_self2 [of y c "- k"] by simp

lemma DayFromYear_Suc: "DayFromYear (y + 1) = DayFromYear y + DaysInYear y"
proof -
  have m4: "(y - 1968) mod 4 = y mod 4"
    using mod_shift [of y 4 492] by simp
  have m100: "(y - 1900) mod 100 = y mod 100"
    using mod_shift [of y 100 19] by simp
  have m400: "(y - 1600) mod 400 = y mod 400"
    using mod_shift [of y 400 4] by simp
  have s4: "(y - 1968) div 4 = (y - 1969) div 4 + (if y mod 4 = 0 then 1 else 0)"
    using div_step [of 4 "y - 1969"] m4 by simp
  have s100: "(y - 1900) div 100 = (y - 1901) div 100 + (if y mod 100 = 0 then 1 else 0)"
    using div_step [of 100 "y - 1901"] m100 by simp
  have s400: "(y - 1600) div 400 = (y - 1601) div 400 + (if y mod 400 = 0 then 1 else 0)"
    using div_step [of 400 "y - 1601"] m400 by simp
  have d100: "y mod 100 = 0 \<Longrightarrow> y mod 4 = 0"
    using mod_mod_cancel [of 4 100 y] by simp
  have d400: "y mod 400 = 0 \<Longrightarrow> y mod 100 = 0"
    using mod_mod_cancel [of 100 400 y] by simp
  have e: "DayFromYear (y + 1) =
      365 * (y - 1969) + (y - 1968) div 4 - (y - 1900) div 100 + (y - 1600) div 400"
    by (simp add: DayFromYear_def)
  show ?thesis
    unfolding e s4 s100 s400 using d100 d400
    by (simp add: DayFromYear_def DaysInYear_def)
qed

function year_search :: "int \<Rightarrow> int \<Rightarrow> int" where
  "year_search d y = (if DayFromYear (y + 1) \<le> d then year_search d (y + 1) else y)"
  by pat_completeness auto
termination
proof (relation "measure (\<lambda>(d, y). nat (d - DayFromYear y))")
  show "wf (measure (\<lambda>(d, y). nat (d - DayFromYear y)))" by simp
next
  fix d y :: int
  assume "DayFromYear (y + 1) \<le> d"
  moreover have "365 \<le> DaysInYear y" by (simp add: DaysInYear_def)
  ultimately show "((d, y + 1), (d, y)) \<in> measure (\<lambda>(d, y). nat (d - DayFromYear y))"
    by (simp add: DayFromYear_Suc)
qed

declare year_search.simps [simp del]

definition YearFromTime :: "int \<Rightarrow> int" where
  "YearFromTime t =
     (let d = Day t
      in year_search d (1970 + (if 0 \<le> d then d div 366 else d div 365)))"

definition InLeapYear :: "int \<Rightarrow> int" where
  "InLeapYear t = (if DaysInYear (YearFromTime t) = 366 then 1 else 0)"

definition DayWithinYear :: "int \<Rightarrow> int" where
  "DayWithinYear t = Day t - DayFromYear (YearFromTime t)"

definition MonthFromTime :: "int \<Rightarrow> int" where
  "MonthFromTime t =
     (let d = DayWithinYear t; l = InLeapYear t
      in if d < 31 then 0
         else if d < 59 + l then 1
         else if d < 90 + l then 2
         else if d < 120 + l then 3
         else if d < 151 + l then 4
         else if d < 181 + l then 5
         else if d < 212 + l then 6
         else if d < 243 + l then 7
         else if d < 273 + l then 8
         else if d < 304 + l then 9
         else if d < 334 + l then 10
         else 11)"

definition DateFromTime :: "int \<Rightarrow> int" where
  "DateFromTime t =
     (let d = DayWithinYear t; l = InLeapYear t; m = MonthFromTime t
      in if m = 0 then d + 1
         else if m = 1 then d - 30
         else if m = 2 then d - 58 - l
         else if m = 3 then d - 89 - l
         else if m = 4 then d - 119 - l
         else if m = 5 then d - 150 - l
         else if m = 6 then d - 180 - l
         else if m = 7 then d - 211 - l
         else if m = 8 then d - 242 - l
         else if m = 9 then d - 272 - l
         else if m = 10 then d - 303 - l
         else d - 333 - l)"

text \<open>
  \<open>DayFromMonth mn l\<close> is the day within the year on which month \<open>mn\<close> (0 to 11)
  starts, \<open>l\<close> being 1 in a leap year: the boundaries of the table of \<open>MonthFromTime\<close>.
  \<open>MakeDay\<close> carries months outside 0 to 11 into the year, as ECMA-262 prescribes, and
  lets a day of the month beyond the month's end run into the next month.
\<close>

definition DayFromMonth :: "int \<Rightarrow> int \<Rightarrow> int" where
  "DayFromMonth mn l =
     (if mn = 0 then 0
      else if mn = 1 then 31
      else if mn = 2 then 59 + l
      else if mn = 3 then 90 + l
      else if mn = 4 then 120 + l
      else if mn = 5 then 151 + l
      else if mn = 6 then 181 + l
      else if mn = 7 then 212 + l
      else if mn = 8 then 243 + l
      else if mn = 9 then 273 + l
      else if mn = 10 then 304 + l
      else 334 + l)"

definition MakeDay :: "int \<Rightarrow> int \<Rightarrow> int \<Rightarrow> int" where
  "MakeDay year month date =
     (let ym = year + month div 12;
          mn = month mod 12
      in DayFromYear ym + DayFromMonth mn (if DaysInYear ym = 366 then 1 else 0) + date - 1)"

text \<open>
  The day number on which month \<open>n mod 12\<close> of year \<open>n div 12\<close> starts: \<open>MakeDay\<close>
  for the first of the month, with the months counted from year 0.
\<close>

definition month_start :: "int \<Rightarrow> int" where
  "month_start n =
     DayFromYear (n div 12) +
     DayFromMonth (n mod 12) (if DaysInYear (n div 12) = 366 then 1 else 0)"

definition MakeDate :: "int \<Rightarrow> int \<Rightarrow> int" where
  "MakeDate day time = day * msPerDay + time"

definition TimeClip :: "int \<Rightarrow> int option" where
  "TimeClip t = (if 8640000000000000 < \<bar>t\<bar> then None else Some t)"

text \<open>
  The host's time zone is a parameter: \<open>tza t isUTC\<close> is ECMA-262's
  \<open>LocalTZA(t, isUTC)\<close>, the offset of local time from UTC in milliseconds at the UTC
  time \<open>t\<close> (\<open>isUTC\<close>) or at the local time \<open>t\<close>.
\<close>

type_synonym time_zone = "int \<Rightarrow> bool \<Rightarrow> int"

definition LocalTime :: "time_zone \<Rightarrow> int \<Rightarrow> int" where
  "LocalTime tza t = t + tza t True"

definition UTC :: "time_zone \<Rightarrow> int \<Rightarrow> int" where
  "UTC tza t = t - tza t False"

definition getMonth :: "time_zone \<Rightarrow> int \<Rightarrow> int" where
  "getMonth tza tv = MonthFromTime (LocalTime tza tv)"

definition setMonth :: "time_zone \<Rightarrow> int \<Rightarrow> int \<Rightarrow> int option" where
  "setMonth tza tv month =
     (let t = LocalTime tza tv;
          newDate = MakeDate (MakeDay (YearFromTime t) month (DateFromTime t)) (TimeWithinDay t)
      in TimeClip (UTC tza newDate))"

text \<open>
  The idiom of all three grant paths, for a valid \<open>now\<close> and an integer number of months:
  \<^verbatim>\<open>new Date(now.setMonth(now.getMonth() + months))\<close>.
\<close>

definition months_from :: "time_zone \<Rightarrow> int \<Rightarrow> int \<Rightarrow> int option" where
  "months_from tza now months = setMonth tza now (getMonth tza now + months)"

section \<open>Values, strings and errors\<close>

text \<open>
  A field of a JSON request body or of a Stripe object, as far as the handlers look at
  it: they test it for truthiness and call \<^verbatim>\<open>toLowerCase\<close> on it. Numbers are the
  integers; \<open>JObject\<close> stands for any object or array; a string is the list of its
  code points.
\<close>

type_synonym ustring = "nat list"

datatype jsval = Undefined | Null | JBool bool | JNum int | JStr ustring | JObject

fun falsy :: "jsval \<Rightarrow> bool" where
  "falsy Undefined = True"
| "falsy Null = True"
| "falsy (JBool b) = (\<not> b)"
| "falsy (JNum n) = (n = 0)"
| "falsy (JStr s) = (s = [])"
| "falsy JObject = False"

text \<open>
  The strings the handlers lower-case, the e-mail addresses, are lists of Unicode code
  points (\<open>ustring\<close>); \<open>ascii\<close> gives the code points of a literal. Strings that are
  only compared or passed on (Stripe identifiers, header values, messages) stay
  \<open>string\<close>.
\<close>

definition ascii :: "string \<Rightarrow> ustring" where
  "ascii s = map of_char s"

text \<open>
  \<^verbatim>\<open>String.prototype.toLowerCase\<close> is the lower-casing of the Unicode Default Case
  Conversion (ECMA-262, Unicode section 3.13): every code point is replaced by its
  lowercase mapping in the Unicode Character Database, which may be several code
  points, and a capital sigma U+03A3 (931) becomes the final sigma U+03C2 (962) where
  the condition \<open>Final_Sigma\<close> of the database holds: a cased letter comes before it,
  with only case-ignorable code points between, and no cased letter comes after it in
  the same way. The database is a table of the platform and a parameter here, for the
  code points beyond Basic Latin. In Basic Latin (below 128) the letters A to Z map to
  a to z, the letters are the cased code points, and the apostrophe, full stop, colon,
  circumflex and grave accent are the case-ignorable ones.
\<close>

record ucd =
  Lowercase_Mapping :: "nat \<Rightarrow> ustring"
  Cased :: "nat \<Rightarrow> bool"
  Case_Ignorable :: "nat \<Rightarrow> bool"

definition is_upper :: "nat \<Rightarrow> bool" where
  "is_upper c = (65 \<le> c \<and> c \<le> 90)"

definition is_lower :: "nat \<Rightarrow> bool" where
  "is_lower c = (97 \<le> c \<and> c \<le> 122)"

definition cased :: "ucd \<Rightarrow> nat \<Rightarrow> bool" where
  "cased u c = (if c < 128 then is_upper c \<or> is_lower c else Cased u c)"

definition case_ignorable :: "ucd \<Rightarrow> nat \<Rightarrow> bool" where
  "case_ignorable u c =
     (if c < 128 then c = 39 \<or> c = 46 \<or> c = 58 \<or> c = 94 \<or> c = 96 else Case_Ignorable u c)"

text \<open>\<open>cased_next u cs\<close>: the list starts with case-ignorable code points, none or more,
  and then a cased one. \<open>Final_Sigma\<close> takes the code points before the sigma, the
  nearest first, and those after it.\<close>

fun cased_next :: "ucd \<Rightarrow> ustring \<Rightarrow> bool" where
  "cased_next u [] = False"
| "cased_next u (c # cs) = (cased u c \<or> (case_ignorable u c \<and> cased_next u cs))"

definition Final_Sigma :: "ucd \<Rightarrow> ustring \<Rightarrow> ustring \<Rightarrow> bool" where
  "Final_Sigma u pre post = (cased_next u pre \<and> \<not> cased_next u post)"

definition toLowerCase_at :: "ucd \<Rightarrow> ustring \<Rightarrow> nat \<Rightarrow> ustring \<Rightarrow> ustring" where
  "toLowerCase_at u pre c post =
     (if c < 128 then [if is_upper c then c + 32 else c]
      else if c = 931 \<and> Final_Sigma u pre post then [962]
      else Lowercase_Mapping u c)"

fun lower_from :: "ucd \<Rightarrow> ustring \<Rightarrow> ustring \<Rightarrow> ustring" where
  "lower_from u pre [] = []"
| "lower_from u pre (c # cs) = toLowerCase_at u pre c cs @ lower_from u (c # pre) cs"

definition toLowerCase :: "ucd \<Rightarrow> ustring \<Rightarrow> ustring" where
  "toLowerCase u s = lower_from u [] s"

text \<open>
  Two strings differ only in letter case: they have the same length, and at each
  position they have the same code point or the capital and the small form of one
  letter. In Basic Latin the letters are those of the two alphabets written out below.
  Beyond it, \<open>a\<close> is a capital with the small form \<open>b\<close> when the database maps \<open>a\<close> to
  \<open>b\<close> alone and \<open>b\<close> is a small letter, one that the database maps to itself.
\<close>

definition capitals :: ustring where
  "capitals = ascii ''ABCDEFGHIJKLMNOPQRSTUVWXYZ''"

definition smalls :: ustring where
  "smalls = ascii ''abcdefghijklmnopqrstuvwxyz''"

definition latin_cases :: "nat \<Rightarrow> nat \<Rightarrow> bool" where
  "latin_cases a b = ((a, b) \<in> set (zip capitals smalls))"

definition small_form :: "ucd \<Rightarrow> nat \<Rightarrow> bool" where
  "small_form u b = (if b < 128 then b \<in> set smalls else Lowercase_Mapping u b = [b])"

definition two_cases :: "ucd \<Rightarrow> nat \<Rightarrow> nat \<Rightarrow> bool" where
  "two_cases u a b =
     (latin_cases a b \<or>
      (128 \<le> a \<and> a \<noteq> b \<and> Lowercase_Mapping u a = [b] \<and> small_form u b))"

definition same_letter :: "ucd \<Rightarrow> nat \<Rightarrow> nat \<Rightarrow> bool" where
  "same_letter u a b = (a = b \<or> two_cases u a b \<or> two_cases u b a)"

definition differ_only_in_case :: "ucd \<Rightarrow> ustring \<Rightarrow> ustring \<Rightarrow> bool" where
  "differ_only_in_case u s t = list_all2 (same_letter u) s t"

text \<open>
  What a handler can throw: \<open>TypeError\<close> from a method call on a value that has no such
  method, \<open>DatabaseError\<close> from a rejected \<^verbatim>\<open>pool.query\<close>, \<open>StripeError\<close> from the
  customer lookup, \<open>SignatureVerificationError\<close> from \<^verbatim>\<open>constructEvent\<close>, and
  \<open>BodyParseError\<close> raised by the JSON body parser.
\<close>

datatype error =
  TypeError | DatabaseError | StripeError | SignatureVerificationError | BodyParseError

section \<open>The licenses table\<close>

text \<open>
  One row of \<^verbatim>\<open>licenses\<close>. Timestamps are time values in milliseconds; a NULL column
  is \<open>None\<close>. The column \<^verbatim>\<open>id\<close> is \<open>row_id\<close> here.
\<close>

record license =
  row_id :: nat
  email :: ustring
  active :: bool
  expires_at :: "int option"
  stripe_customer_id :: "string option"
  stripe_subscription_id :: "string option"
  created_at :: int
  updated_at :: int

text \<open>
  The table is a map from the \<^verbatim>\<open>email\<close> column to the row, since the column is
  \<^verbatim>\<open>UNIQUE NOT NULL\<close>, together with the next value of the \<^verbatim>\<open>SERIAL\<close> sequence.
\<close>

record db =
  rows :: "ustring \<rightharpoonup> license"
  next_id :: nat

datatype event =
    CheckoutSessionCompleted jsval "string option" "string option"
  | InvoicePaymentSucceeded "string option" string
  | CustomerSubscriptionDeleted string
  | OtherEvent string

text \<open>
  What one request sees of the world outside the handler:
  \<^item> \<open>now\<close>: the value of \<^verbatim>\<open>new Date()\<close> in the handler;
  \<^item> \<open>db_now\<close>: the value of \<^verbatim>\<open>NOW()\<close> in the database;
  \<^item> \<open>query_fails\<close>: whether \<^verbatim>\<open>pool.query\<close> rejects (connection lost, server down);
  \<^item> \<open>LocalTZA\<close>: the time zone of the host;
  \<^item> \<open>unicode\<close>: the Unicode Character Database of the host;
  \<^item> \<open>ADMIN_API_KEY\<close>: \<^verbatim>\<open>process.env.ADMIN_API_KEY\<close>, \<open>None\<close> when unset;
  \<^item> \<open>customers_retrieve\<close>: \<^verbatim>\<open>stripe.customers.retrieve\<close>, returning the
    \<^verbatim>\<open>email\<close> field of the customer (\<open>Null\<close> when Stripe has none, \<open>Undefined\<close> for a
    deleted customer) or throwing;
  \<^item> \<open>signed_event\<close>: Stripe's check of a raw payload and a signature header against
    \<^verbatim>\<open>WEBHOOK_SECRET\<close>, returning the event the payload encodes, \<open>None\<close> when the
    check fails.
\<close>

record env =
  now :: int
  db_now :: int
  query_fails :: bool
  LocalTZA :: time_zone
  unicode :: ucd
  ADMIN_API_KEY :: "string option"
  customers_retrieve :: "string \<Rightarrow> error + jsval"
  signed_event :: "string \<Rightarrow> string option \<Rightarrow> event option"

section \<open>Helpers\<close>

text \<open>
  \<^verbatim>\<open>upsertLicense\<close>. The parameter list \<^verbatim>\<open>[email.toLowerCase(), ...]\<close> is built
  before the query is sent, so an \<^verbatim>\<open>email\<close> that is not a string throws a
  \<open>TypeError\<close> and nothing reaches the database. An invalid date has no timestamp
  syntax and the server rejects the statement. Otherwise the single
  \<^verbatim>\<open>INSERT ... ON CONFLICT (email) DO UPDATE\<close> either inserts a row, with
  \<^verbatim>\<open>id\<close> from the sequence and both timestamps defaulting to \<^verbatim>\<open>NOW()\<close>, or
  overwrites \<^verbatim>\<open>active\<close>, \<^verbatim>\<open>expires_at\<close>, both Stripe columns and
  \<^verbatim>\<open>updated_at\<close> of the row that has the e-mail; \<^verbatim>\<open>undefined\<close> and
  \<^verbatim>\<open>null\<close> parameters are both sent as NULL. The sequence advances in either case,
  as the default of \<^verbatim>\<open>id\<close> is computed before the conflict is seen.
\<close>

definition upsertLicense ::
  "env \<Rightarrow> jsval \<Rightarrow> string option \<Rightarrow> string option \<Rightarrow> int option \<Rightarrow> bool \<Rightarrow> db
    \<Rightarrow> error + (license \<times> db)" where
  "upsertLicense e email_arg stripeCustomerId stripeSubscriptionId expiresAt active_arg d =
     (case email_arg of
        JStr s \<Rightarrow>
          (case expiresAt of
             None \<Rightarrow> Inl DatabaseError
           | Some x \<Rightarrow>
               if query_fails e then Inl DatabaseError
               else
                 let key = toLowerCase (unicode e) s;
                     row =
                       (case rows d key of
                          None \<Rightarrow>
                            \<lparr>row_id = next_id d, email = key, active = active_arg,
                             expires_at = Some x,
                             stripe_customer_id = stripeCustomerId,
                             stripe_subscription_id = stripeSubscriptionId,
                             created_at = db_now e, updated_at = db_now e\<rparr>
                        | Some old \<Rightarrow>
                            old\<lparr>active := active_arg,
                                expires_at := Some x,
                                stripe_customer_id := stripeCustomerId,
                                stripe_subscription_id := stripeSubscriptionId,
                                updated_at := db_now e\<rparr>)
                 in Inr (row, d\<lparr>rows := (rows d)(key \<mapsto> row), next_id := next_id d + 1\<rparr>))
      | _ \<Rightarrow> Inl TypeError)"

text \<open>\<^verbatim>\<open>findLicenseByEmail\<close>: \<open>None\<close> is \<^verbatim>\<open>res.rows[0]\<close> of an empty result.\<close>

definition findLicenseByEmail :: "env \<Rightarrow> jsval \<Rightarrow> db \<Rightarrow> error + license option" where
  "findLicenseByEmail e email_arg d =
     (case email_arg of
        JStr s \<Rightarrow> if query_fails e then Inl DatabaseError else Inr (rows d (toLowerCase (unicode e) s))
      | _ \<Rightarrow> Inl TypeError)"

section \<open>Routes\<close>

text \<open>The bodies the routes send, and the response with its status.\<close>

datatype reply =
    CheckDenied string
  | CheckValid string "int option"
  | AdminRefused string
  | AdminGranted license
  | Received
  | Text string
  | ErrorPage

record response =
  status :: nat
  payload :: reply

fun valid :: "reply \<Rightarrow> bool" where
  "valid (CheckValid m x) = True"
| "valid r = False"

text \<open>
  \<^verbatim>\<open>POST /check-license\<close>. \<open>check_license_try\<close> is the body of the \<^verbatim>\<open>try\<close>
  block on the \<^verbatim>\<open>email\<close> field of the request body (\<open>Undefined\<close> when the body
  or the field is missing); \<open>check_license\<close> adds the \<^verbatim>\<open>catch\<close>. Every path
  answers through \<^verbatim>\<open>res.json\<close> with the default status 200. The handler only reads
  the table; it returns the table it was given.
\<close>

definition check_license_try :: "env \<Rightarrow> jsval \<Rightarrow> db \<Rightarrow> error + reply" where
  "check_license_try e body_email d =
     (if falsy body_email then Inr (CheckDenied ''Missing email.'')
      else
        (case findLicenseByEmail e body_email d of
           Inl err \<Rightarrow> Inl err
         | Inr None \<Rightarrow> Inr (CheckDenied ''Not licensed.'')
         | Inr (Some lic) \<Rightarrow>
             if \<not> active lic then Inr (CheckDenied ''Subscription inactive.'')
             else
               (case expires_at lic of
                  Some x \<Rightarrow>
                    if x < now e then Inr (CheckDenied ''Subscription expired.'')
                    else Inr (CheckValid ''Valid license.'' (expires_at lic))
                | None \<Rightarrow> Inr (CheckValid ''Valid license.'' (expires_at lic)))))"

definition check_license :: "env \<Rightarrow> jsval \<Rightarrow> db \<Rightarrow> response \<times> db" where
  "check_license e body_email d =
     (case check_license_try e body_email d of
        Inl err \<Rightarrow> (\<lparr>status = 200, payload = CheckDenied ''Server error.''\<rparr>, d)
      | Inr r \<Rightarrow> (\<lparr>status = 200, payload = r\<rparr>, d))"

text \<open>
  \<^verbatim>\<open>POST /admin/add-license\<close>. \<open>body_months\<close> is \<open>None\<close> when the body has no
  \<^verbatim>\<open>months\<close> (the default 1 applies) and an integer otherwise. The handler has no
  \<^verbatim>\<open>try\<close>: an error of \<^verbatim>\<open>upsertLicense\<close> leaves the request unanswered, which
  is the result \<open>Inl\<close>.
\<close>

record admin_request =
  x_admin_key :: "string option"
  body_email :: jsval
  body_months :: "int option"

definition admin_add_license :: "env \<Rightarrow> admin_request \<Rightarrow> db \<Rightarrow> error + (response \<times> db)" where
  "admin_add_license e req d =
     (if x_admin_key req \<noteq> ADMIN_API_KEY e
      then Inr (\<lparr>status = 403, payload = AdminRefused ''Forbidden''\<rparr>, d)
      else if falsy (body_email req)
      then Inr (\<lparr>status = 200, payload = AdminRefused ''Email required.''\<rparr>, d)
      else
        let months = (case body_months req of None \<Rightarrow> 1 | Some m \<Rightarrow> m);
            expiresAt = months_from (LocalTZA e) (now e) months
        in (case upsertLicense e (body_email req) None None expiresAt True d of
              Inl err \<Rightarrow> Inl err
            | Inr (lic, d') \<Rightarrow> Inr (\<lparr>status = 200, payload = AdminGranted lic\<rparr>, d')))"

text \<open>
  \<^verbatim>\<open>POST /stripe/webhook\<close>, after the signature check. \<open>webhook_switch\<close> is the
  \<^verbatim>\<open>switch\<close> inside the second \<^verbatim>\<open>try\<close>, returning the row
  \<^verbatim>\<open>upsertLicense\<close> returned, if it was called. The e-mail of a checkout session is
  \<^verbatim>\<open>session.customer_details.email\<close>; a session without customer details throws
  the same \<open>TypeError\<close> as one whose e-mail is \<open>Undefined\<close>. The cancellation passes
  neither Stripe identifier, so both parameters are \<^verbatim>\<open>undefined\<close>.
  \<open>stripe_webhook_handler\<close> adds the \<^verbatim>\<open>catch\<close>, which only logs, and the
  acknowledgment that follows it.
\<close>

definition webhook_switch :: "env \<Rightarrow> event \<Rightarrow> db \<Rightarrow> error + (license option \<times> db)" where
  "webhook_switch e ev d =
     (case ev of
        CheckoutSessionCompleted session_email customer subscription \<Rightarrow>
          (case upsertLicense e session_email customer subscription
                  (months_from (LocalTZA e) (now e) 1) True d of
             Inl err \<Rightarrow> Inl err
           | Inr (lic, d') \<Rightarrow> Inr (Some lic, d'))
      | InvoicePaymentSucceeded subscriptionId customerId \<Rightarrow>
          (case customers_retrieve e customerId of
             Inl err \<Rightarrow> Inl err
           | Inr customer_email \<Rightarrow>
               (case upsertLicense e customer_email (Some customerId) subscriptionId
                       (months_from (LocalTZA e) (now e) 1) True d of
                  Inl err \<Rightarrow> Inl err
                | Inr (lic, d') \<Rightarrow> Inr (Some lic, d')))
      | CustomerSubscriptionDeleted customerId \<Rightarrow>
          (case customers_retrieve e customerId of
             Inl err \<Rightarrow> Inl err
           | Inr customer_email \<Rightarrow>
               (case upsertLicense e customer_email None None (Some (now e)) False d of
                  Inl err \<Rightarrow> Inl err
                | Inr (lic, d') \<Rightarrow> Inr (Some lic, d')))
      | OtherEvent kind \<Rightarrow> Inr (None, d))"

definition stripe_webhook_handler :: "env \<Rightarrow> event \<Rightarrow> db \<Rightarrow> response \<times> db" where
  "stripe_webhook_handler e ev d =
     (case webhook_switch e ev d of
        Inl err \<Rightarrow> (\<lparr>status = 200, payload = Received\<rparr>, d)
      | Inr (lic, d') \<Rightarrow> (\<lparr>status = 200, payload = Received\<rparr>, d'))"

text \<open>
  The request as it reaches the route. \<^verbatim>\<open>app.use(bodyParser.json())\<close> is registered
  for every path, before \<^verbatim>\<open>app.use('/stripe/webhook', bodyParser.raw(...))\<close>, and
  both parsers take the type \<^verbatim>\<open>application/json\<close>. A parser of the body-parser
  package leaves a request alone whose body was read already (the flag
  \<^verbatim>\<open>req._body\<close>, the first component below) or whose type it does not take; the
  JSON parser sets \<^verbatim>\<open>req.body\<close> to an empty object first, and answers a payload
  that is not JSON through the error handler, with status 400.
  \<open>is_json\<close> says that the request has a body of type \<^verbatim>\<open>application/json\<close>, and
  \<open>json_parses\<close> that the payload is a JSON object or array.
\<close>

record webhook_request =
  is_json :: bool
  json_parses :: bool
  raw_payload :: string
  stripe_signature :: "string option"

datatype req_body = EmptyObject | ParsedJson string | Buffer string

definition bodyParser_json :: "webhook_request \<Rightarrow> error + (bool \<times> req_body)" where
  "bodyParser_json req =
     (if is_json req
      then (if json_parses req then Inr (True, ParsedJson (raw_payload req))
            else Inl BodyParseError)
      else Inr (False, EmptyObject))"

definition bodyParser_raw :: "webhook_request \<Rightarrow> bool \<times> req_body \<Rightarrow> bool \<times> req_body" where
  "bodyParser_raw req st =
     (if fst st then st
      else if is_json req then (True, Buffer (raw_payload req))
      else st)"

text \<open>
  \<^verbatim>\<open>stripe.webhooks.constructEvent(req.body, sig, WEBHOOK_SECRET)\<close>: the library
  verifies and decodes a string or a buffer of the raw bytes, and throws on anything
  else (the text of an object is not what was signed, nor is it JSON).
\<close>

definition constructEvent :: "env \<Rightarrow> req_body \<Rightarrow> string option \<Rightarrow> error + event" where
  "constructEvent e b sig =
     (case b of
        Buffer raw \<Rightarrow>
          (case signed_event e raw sig of
             None \<Rightarrow> Inl SignatureVerificationError
           | Some ev \<Rightarrow> Inr ev)
      | _ \<Rightarrow> Inl SignatureVerificationError)"

definition stripe_webhook :: "env \<Rightarrow> webhook_request \<Rightarrow> db \<Rightarrow> response \<times> db" where
  "stripe_webhook e req d =
     (case bodyParser_json req of
        Inl err \<Rightarrow> (\<lparr>status = 400, payload = ErrorPage\<rparr>, d)
      | Inr st \<Rightarrow>
          (case constructEvent e (snd (bodyParser_raw req st)) (stripe_signature req) of
             Inl err \<Rightarrow> (\<lparr>status = 400, payload = Text ''Invalid signature.''\<rparr>, d)
           | Inr ev \<Rightarrow> stripe_webhook_handler e ev d))"

section \<open>Scenarios\<close>

text \<open>
  Concrete requests, tables and environments on which the routes are run below. The
  host is in UTC. Stripe knows the customer \<^verbatim>\<open>cus_1\<close>, Carol, the customer
  \<^verbatim>\<open>cus_2\<close>, whose e-mail is null, and the customer \<^verbatim>\<open>cus_4\<close>, whose e-mail is
  the empty string; any other lookup throws. \<open>env1\<close> is a request at
  2023-11-14T22:13:20Z, \<open>env2\<close> one a second later, and \<open>env_down\<close> one that finds the
  database unreachable.
\<close>

definition utc :: time_zone where
  "utc t isUTC = 0"

text \<open>A part of the Unicode Character Database: the letters of the Latin-1 Supplement
  and of the Greek alphabet, whose capitals lie 32 below their small forms. Every other
  code point beyond Basic Latin is taken to have no case.\<close>

definition has_small_form :: "nat \<Rightarrow> bool" where
  "has_small_form c =
     ((192 \<le> c \<and> c \<le> 222 \<and> c \<noteq> 215) \<or> (913 \<le> c \<and> c \<le> 937 \<and> c \<noteq> 930))"

definition lowercase_part :: "nat \<Rightarrow> ustring" where
  "lowercase_part c = (if has_small_form c then [c + 32] else [c])"

definition cased_part :: "nat \<Rightarrow> bool" where
  "cased_part c =
     (has_small_form c \<or> (223 \<le> c \<and> c \<le> 255 \<and> c \<noteq> 247) \<or> (945 \<le> c \<and> c \<le> 969))"

definition ignorable_part :: "nat \<Rightarrow> bool" where
  "ignorable_part c = False"

definition ucd_part :: ucd where
  "ucd_part = \<lparr>Lowercase_Mapping = lowercase_part, Cased = cased_part,
     Case_Ignorable = ignorable_part\<rparr>"

definition lookup :: "string \<Rightarrow> error + jsval" where
  "lookup c =
     (if c = ''cus_1'' then Inr (JStr (ascii ''Carol@X.com''))
      else if c = ''cus_2'' then Inr Null
      else if c = ''cus_4'' then Inr (JStr [])
      else Inl StripeError)"

definition verifier :: "string \<Rightarrow> string option \<Rightarrow> event option" where
  "verifier raw sig =
     (if raw = ''evt_1'' \<and> sig = Some ''t=1,v1=ab''
      then Some (CustomerSubscriptionDeleted ''cus_1'')
      else None)"

definition env1 :: env where
  "env1 = \<lparr>now = 1700000000000, db_now = 1700000000123, query_fails = False,
     LocalTZA = utc, unicode = ucd_part, ADMIN_API_KEY = Some ''secret'', customers_retrieve = lookup,
     signed_event = verifier\<rparr>"

definition env2 :: env where
  "env2 = \<lparr>now = 1700000001000, db_now = 1700000001456, query_fails = False,
     LocalTZA = utc, unicode = ucd_part, ADMIN_API_KEY = Some ''secret'', customers_retrieve = lookup,
     signed_event = verifier\<rparr>"

definition env_down :: env where
  "env_down = \<lparr>now = 1700000000000, db_now = 1700000000123, query_fails = True,
     LocalTZA = utc, unicode = ucd_part, ADMIN_API_KEY = Some ''secret'', customers_retrieve = lookup,
     signed_event = verifier\<rparr>"

text \<open>An empty table, and the administrative grant for \<^verbatim>\<open>A@x.com\<close> with the row
  and the table it leaves: \<open>x\<close> is the expiry, \<open>u\<close> the time of the update.\<close>

definition db_empty :: db where
  "db_empty = \<lparr>rows = Map.empty, next_id = 1\<rparr>"

definition grant_a :: "int option \<Rightarrow> admin_request" where
  "grant_a m = \<lparr>x_admin_key = Some ''secret'', body_email = JStr (ascii ''A@x.com''), body_months = m\<rparr>"

definition lic_a :: "int \<Rightarrow> int \<Rightarrow> license" where
  "lic_a x u = \<lparr>row_id = 1, email = (ascii ''a@x.com''), active = True, expires_at = Some x,
     stripe_customer_id = None, stripe_subscription_id = None,
     created_at = 1700000000123, updated_at = u\<rparr>"

definition db_a :: "int \<Rightarrow> int \<Rightarrow> nat \<Rightarrow> db" where
  "db_a x u n = \<lparr>rows = [(ascii ''a@x.com'') \<mapsto> lic_a x u], next_id = n\<rparr>"

text \<open>A table with a paid subscription of Carol, an inactive row, an expired row and a row
  that expires at the very instant of \<open>env1\<close>.\<close>

definition lic_carol :: license where
  "lic_carol = \<lparr>row_id = 1, email = (ascii ''carol@x.com''), active = True,
     expires_at = Some 1701000000000,
     stripe_customer_id = Some ''cus_1'', stripe_subscription_id = Some ''sub_1'',
     created_at = 1690000000000, updated_at = 1699000000000\<rparr>"

definition lic_inactive :: license where
  "lic_inactive = \<lparr>row_id = 2, email = (ascii ''i@x.com''), active = False,
     expires_at = Some 1800000000000,
     stripe_customer_id = None, stripe_subscription_id = None,
     created_at = 1690000000000, updated_at = 1690000000000\<rparr>"

definition lic_old :: license where
  "lic_old = \<lparr>row_id = 3, email = (ascii ''o@x.com''), active = True,
     expires_at = Some 1699999999999,
     stripe_customer_id = None, stripe_subscription_id = None,
     created_at = 1690000000000, updated_at = 1690000000000\<rparr>"

definition lic_edge :: license where
  "lic_edge = \<lparr>row_id = 4, email = (ascii ''b@x.com''), active = True,
     expires_at = Some 1700000000000,
     stripe_customer_id = None, stripe_subscription_id = None,
     created_at = 1690000000000, updated_at = 1690000000000\<rparr>"

definition db_four :: db where
  "db_four = \<lparr>rows = [(ascii ''carol@x.com'') \<mapsto> lic_carol, (ascii ''i@x.com'') \<mapsto> lic_inactive,
     (ascii ''o@x.com'') \<mapsto> lic_old, (ascii ''b@x.com'') \<mapsto> lic_edge], next_id = 5\<rparr>"

text \<open>The delivery of a cancellation of Carol's subscription, signed as \<open>verifier\<close>
  expects.\<close>

definition req_signed :: webhook_request where
  "req_signed = \<lparr>is_json = True, json_parses = True, raw_payload = ''evt_1'',
     stripe_signature = Some ''t=1,v1=ab''\<rparr>"

text \<open>Carol's row after a renewal at \<open>env1\<close>, after a cancellation at \<open>env1\<close>, and
  after an administrative grant at \<open>env2\<close>; and the row a checkout of a new customer
  leaves at \<open>env1\<close>.\<close>

definition lic_carol_renewed :: license where
  "lic_carol_renewed = lic_carol\<lparr>expires_at := Some 1702592000000,
     updated_at := 1700000000123\<rparr>"

definition lic_carol_canceled :: license where
  "lic_carol_canceled = \<lparr>row_id = 1, email = (ascii ''carol@x.com''), active = False,
     expires_at = Some 1700000000000,
     stripe_customer_id = None, stripe_subscription_id = None,
     created_at = 1690000000000, updated_at = 1700000000123\<rparr>"

definition grant_carol :: admin_request where
  "grant_carol = \<lparr>x_admin_key = Some ''secret'', body_email = JStr (ascii ''carol@x.com''),
     body_months = None\<rparr>"

definition lic_carol_granted :: license where
  "lic_carol_granted = \<lparr>row_id = 1, email = (ascii ''carol@x.com''), active = True,
     expires_at = Some 1702592001000,
     stripe_customer_id = None, stripe_subscription_id = None,
     created_at = 1690000000000, updated_at = 1700000001456\<rparr>"

definition lic_user :: license where
  "lic_user = \<lparr>row_id = 5, email = (ascii ''user@example.com''), active = True,
     expires_at = Some 1702592000000,
     stripe_customer_id = Some ''cus_3'', stripe_subscription_id = Some ''sub_3'',
     created_at = 1700000000123, updated_at = 1700000000123\<rparr>"

text \<open>The row a paid invoice of the customer \<^verbatim>\<open>cus_4\<close> leaves at \<open>env1\<close>.\<close>

definition lic_nobody :: license where
  "lic_nobody = \<lparr>row_id = 5, email = [], active = True,
     expires_at = Some 1702592000000,
     stripe_customer_id = Some ''cus_4'', stripe_subscription_id = Some ''sub_4'',
     created_at = 1700000000123, updated_at = 1700000000123\<rparr>"

text \<open>The address \<^verbatim>\<open>a@\<close> with the Greek word for road in capitals (Omicron, Delta,
  Omicron, Sigma) and in small letters, and its lower-cased form, which ends in the final
  sigma; the row and the table an administrative grant for the capitals leaves.\<close>

definition odos_capital :: ustring where
  "odos_capital = [97, 64, 927, 916, 927, 931]"

definition odos_small :: ustring where
  "odos_small = [97, 64, 959, 948, 959, 963]"

definition odos_final :: ustring where
  "odos_final = [97, 64, 959, 948, 959, 962]"

definition grant_odos :: admin_request where
  "grant_odos = \<lparr>x_admin_key = Some ''secret'', body_email = JStr odos_capital,
     body_months = None\<rparr>"

definition lic_odos :: license where
  "lic_odos = \<lparr>row_id = 1, email = odos_final, active = True,
     expires_at = Some 1702592000000,
     stripe_customer_id = None, stripe_subscription_id = None,
     created_at = 1700000000123, updated_at = 1700000000123\<rparr>"

definition db_odos :: db where
  "db_odos = \<lparr>rows = [odos_final \<mapsto> lic_odos], next_id = 2\<rparr>"

text \<open>The table after a checkout of \<^verbatim>\<open>User@Example.com\<close> at \<open>env1\<close>.\<close>

definition db_user :: db where
  "db_user = db_four\<lparr>rows := (rows db_four)(ascii ''user@example.com'' \<mapsto> lic_user),
     next_id := 6\<rparr>"

section \<open>The calendar\<close>

lemma DaysInYear_cases: "DaysInYear y = 365 \<or> DaysInYear y = 366"
  by (simp add: DaysInYear_def)

lemma DayFromYear_1970: "DayFromYear 1970 = 0"
  by (simp add: DayFromYear_def)

lemma DayFromYear_upper: "0 \<le> k \<Longrightarrow> DayFromYear (1970 + k) \<le> 366 * k"
proof (induction k rule: int_ge_induct)
  case base
  show ?case by (simp add: DayFromYear_1970)
next
  case (step i)
  have "DayFromYear (1970 + (i + 1)) = DayFromYear (1970 + i) + DaysInYear (1970 + i)"
    using DayFromYear_Suc [of "1970 + i"] by (simp add: add.assoc)
  then show ?case using step.IH DaysInYear_cases [of "1970 + i"] by auto
qed

lemma DayFromYear_lower: "k \<le> 0 \<Longrightarrow> DayFromYear (1970 + k) \<le> 365 * k"
proof (induction k rule: int_le_induct)
  case base
  show ?case by (simp add: DayFromYear_1970)
next
  case (step i)
  have "DayFromYear (1970 + i) = DayFromYear (1970 + (i - 1)) + DaysInYear (1970 + (i - 1))"
    using DayFromYear_Suc [of "1970 + (i - 1)"] by simp
  then show ?case using step.IH DaysInYear_cases [of "1970 + (i - 1)"] by auto
qed

lemma year_search_bounds:
  "DayFromYear y \<le> d \<Longrightarrow>
   DayFromYear (year_search d y) \<le> d \<and> d < DayFromYear (year_search d y + 1)"
proof (induction d y rule: year_search.induct)
  case (1 d y)
  show ?case
  proof (cases "DayFromYear (y + 1) \<le> d")
    case True
    with "1.IH" show ?thesis by (simp add: year_search.simps [of d y])
  next
    case False
    with "1.prems" show ?thesis by (simp add: year_search.simps [of d y])
  qed
qed

text \<open>The year found is the one ECMA-262 asks for: its first day is not after the day of
  \<open>t\<close>, and the first day of the next year is.\<close>

lemma YearFromTime_bounds:
  "DayFromYear (YearFromTime t) \<le> Day t \<and> Day t < DayFromYear (YearFromTime t + 1)"
proof -
  define d where "d = Day t"
  define y0 where "y0 = 1970 + (if 0 \<le> d then d div 366 else d div 365)"
  have "DayFromYear y0 \<le> d"
  proof (cases "0 \<le> d")
    case True
    then have "0 \<le> d div 366" by simp
    then have "DayFromYear (1970 + d div 366) \<le> 366 * (d div 366)"
      by (rule DayFromYear_upper)
    moreover have "366 * (d div 366) \<le> d" by simp
    ultimately show ?thesis using True by (simp add: y0_def)
  next
    case False
    then have "d div 365 \<le> 0" by simp
    then have "DayFromYear (1970 + d div 365) \<le> 365 * (d div 365)"
      by (rule DayFromYear_lower)
    moreover have "365 * (d div 365) \<le> d" by simp
    ultimately show ?thesis using False by (simp add: y0_def)
  qed
  moreover have "YearFromTime t = year_search d y0"
    by (simp add: YearFromTime_def Let_def d_def y0_def)
  ultimately show ?thesis
    using year_search_bounds [of y0 d] by (simp add: d_def)
qed

lemma DayWithinYear_range:
  "0 \<le> DayWithinYear t \<and> DayWithinYear t < DaysInYear (YearFromTime t)"
  using YearFromTime_bounds [of t] DayFromYear_Suc [of "YearFromTime t"]
  by (simp add: DayWithinYear_def)

lemma MonthFromTime_range: "0 \<le> MonthFromTime t \<and> MonthFromTime t \<le> 11"
  by (simp add: MonthFromTime_def Let_def)

lemma MakeDay_roundtrip:
  "MakeDay (YearFromTime t) (MonthFromTime t) (DateFromTime t) = Day t"
proof -
  have m: "MonthFromTime t div 12 = 0" "MonthFromTime t mod 12 = MonthFromTime t"
    using MonthFromTime_range [of t] by simp_all
  have "DayFromMonth (MonthFromTime t) (InLeapYear t) + DateFromTime t - 1 = DayWithinYear t"
    by (simp add: DayFromMonth_def DateFromTime_def MonthFromTime_def Let_def)
  then show ?thesis
    by (simp add: MakeDay_def Let_def m InLeapYear_def DayWithinYear_def)
qed

lemma DayFromMonth_step:
  assumes "0 \<le> mn" "mn < 11" "0 \<le> l"
  shows "DayFromMonth mn l + 28 \<le> DayFromMonth (mn + 1) l"
proof -
  have "mn = 0 \<or> mn = 1 \<or> mn = 2 \<or> mn = 3 \<or> mn = 4 \<or> mn = 5 \<or> mn = 6 \<or> mn = 7
      \<or> mn = 8 \<or> mn = 9 \<or> mn = 10"
    using assms by arith
  then show ?thesis
    using assms(3) by (elim disjE) (simp_all add: DayFromMonth_def)
qed

lemma month_start_step: "month_start n + 28 \<le> month_start (n + 1)"
proof (cases "n mod 12 = 11")
  case True
  then have "(n + 1) mod 12 = 0"
    using div_step [of 12 n] mod_add_left_eq [of n 12 1] by simp
  moreover from this have "(n + 1) div 12 = n div 12 + 1"
    using div_step [of 12 n] by simp
  ultimately show ?thesis
    using True DayFromYear_Suc [of "n div 12"] DaysInYear_cases [of "n div 12"]
    by (auto simp add: month_start_def DayFromMonth_def)
next
  case False
  have r: "0 \<le> n mod 12" "n mod 12 < 12" by simp_all
  with False have lt: "n mod 12 < 11" by simp
  have "(n + 1) mod 12 = (n mod 12 + 1) mod 12"
    by (simp add: mod_add_left_eq)
  also have "\<dots> = n mod 12 + 1" using r lt by simp
  finally have m: "(n + 1) mod 12 = n mod 12 + 1" .
  then have d: "(n + 1) div 12 = n div 12"
    using div_step [of 12 n] r by simp
  have "DayFromMonth (n mod 12) l + 28 \<le> DayFromMonth (n mod 12 + 1) l" if "0 \<le> l" for l
    using r(1) lt that by (rule DayFromMonth_step)
  then show ?thesis
    by (simp add: month_start_def m d)
qed

lemma month_start_mono: "month_start n + 28 * int k \<le> month_start (n + int k)"
proof (induction k)
  case 0
  show ?case by simp
next
  case (Suc k)
  have "n + int (Suc k) = n + int k + 1" by simp
  then have "month_start (n + int k) + 28 \<le> month_start (n + int (Suc k))"
    using month_start_step [of "n + int k"] by (simp only:)
  moreover have "28 * int (Suc k) = 28 * int k + 28" by simp
  ultimately show ?case using Suc by linarith
qed

lemma MakeDay_month_start:
  "MakeDay y m dt = month_start (12 * y + m) + dt - 1"
proof -
  have "(12 * y + m) div 12 = y + m div 12" by simp
  moreover have "(12 * y + m) mod 12 = m mod 12" by simp
  ultimately show ?thesis by (simp add: MakeDay_def month_start_def Let_def)
qed

lemma MakeDay_add_months:
  assumes "1 \<le> k"
  shows "Day t + 28 \<le> MakeDay (YearFromTime t) (MonthFromTime t + k) (DateFromTime t)"
proof -
  define n where "n = 12 * YearFromTime t + MonthFromTime t"
  have "month_start n + 28 * int (nat k) \<le> month_start (n + int (nat k))"
    by (rule month_start_mono)
  then have "month_start n + 28 \<le> month_start (n + k)" using assms by simp
  moreover have "MakeDay (YearFromTime t) (MonthFromTime t) (DateFromTime t) =
      month_start n + DateFromTime t - 1"
    by (simp add: MakeDay_month_start n_def)
  moreover have "MakeDay (YearFromTime t) (MonthFromTime t + k) (DateFromTime t) =
      month_start (n + k) + DateFromTime t - 1"
    by (simp add: MakeDay_month_start n_def add.assoc)
  ultimately show ?thesis using MakeDay_roundtrip [of t] by simp
qed

section \<open>Facts about the helpers\<close>

text \<open>Adding at least one month to a date moves it on by at least 28 days, which no
  change of the zone offset takes back.\<close>

lemma months_from_later:
  assumes k: "1 \<le> k"
    and tz: "\<And>t b. \<bar>tza t b\<bar> < msPerDay"
    and r: "months_from tza t0 k = Some x"
  shows "t0 < x"
proof -
  define lt where "lt = LocalTime tza t0"
  define nd where "nd = MakeDate (MakeDay (YearFromTime lt) (MonthFromTime lt + k) (DateFromTime lt))
      (TimeWithinDay lt)"
  have x: "x = UTC tza nd"
    using r by (simp add: months_from_def setMonth_def getMonth_def Let_def TimeClip_def
        lt_def nd_def split: if_splits)
  have "Day lt + 28 \<le> MakeDay (YearFromTime lt) (MonthFromTime lt + k) (DateFromTime lt)"
    using k by (rule MakeDay_add_months)
  then have "(Day lt + 28) * msPerDay \<le>
      MakeDay (YearFromTime lt) (MonthFromTime lt + k) (DateFromTime lt) * msPerDay"
    by (simp add: msPerDay_def)
  moreover have "lt = Day lt * msPerDay + TimeWithinDay lt"
    by (simp add: Day_def TimeWithinDay_def)
  ultimately have "lt + 28 * msPerDay \<le> nd"
    by (simp add: nd_def MakeDate_def algebra_simps)
  moreover have "lt = t0 + tza t0 True" by (simp add: lt_def LocalTime_def)
  moreover have "x = nd - tza nd False" by (simp add: x UTC_def)
  moreover have "\<bar>tza t0 True\<bar> < msPerDay" "\<bar>tza nd False\<bar> < msPerDay" by (rule tz)+
  ultimately show ?thesis by (simp add: msPerDay_def)
qed

text \<open>What a successful upsert returns and stores: the row is new, or the old row with
  its five overwritten columns; it is the row of the lower-cased e-mail afterwards, and
  no other key of the table changes.\<close>

lemma upsertLicense_result:
  assumes "upsertLicense e em c s x a d = Inr (lic, d')"
  obtains str v where "em = JStr str" and "x = Some v" and "\<not> query_fails e"
    and "lic =
      (case rows d (toLowerCase (unicode e) str) of
         None \<Rightarrow>
           \<lparr>row_id = next_id d, email = toLowerCase (unicode e) str, active = a, expires_at = Some v,
            stripe_customer_id = c, stripe_subscription_id = s,
            created_at = db_now e, updated_at = db_now e\<rparr>
       | Some old \<Rightarrow>
           old\<lparr>active := a, expires_at := Some v, stripe_customer_id := c,
               stripe_subscription_id := s, updated_at := db_now e\<rparr>)"
    and "d' = d\<lparr>rows := (rows d)(toLowerCase (unicode e) str \<mapsto> lic), next_id := next_id d + 1\<rparr>"
  using assms
  by (auto simp add: upsertLicense_def Let_def split: jsval.splits option.splits if_splits)

lemma upsertLicense_fields:
  assumes "upsertLicense e em c s x a d = Inr (lic, d')"
  shows "expires_at lic = x" and "active lic = a" and "stripe_customer_id lic = c"
    and "stripe_subscription_id lic = s" and "updated_at lic = db_now e"
  using assms
  by (auto elim!: upsertLicense_result split: option.splits)

lemma upsertLicense_existing:
  assumes "upsertLicense e (JStr s) c sub x a d = Inr (lic, d')"
    and "rows d (toLowerCase (unicode e) s) = Some old"
  shows "lic = old\<lparr>active := a, expires_at := x, stripe_customer_id := c,
      stripe_subscription_id := sub, updated_at := db_now e\<rparr>"
    and "rows d' = (rows d)(toLowerCase (unicode e) s \<mapsto> lic)"
  using assms by (auto elim!: upsertLicense_result)

lemma upsertLicense_stored:
  assumes "upsertLicense e (JStr s) c sub x a d = Inr (lic, d')"
  shows "rows d' (toLowerCase (unicode e) s) = Some lic"
    and "dom (rows d') = insert (toLowerCase (unicode e) s) (dom (rows d))"
    and "k \<noteq> toLowerCase (unicode e) s \<Longrightarrow> rows d' k = rows d k"
  using assms by (auto elim!: upsertLicense_result)

lemma upsertLicense_not_string:
  "\<forall>s. em \<noteq> JStr s \<Longrightarrow> upsertLicense e em c sub x a d = Inl TypeError"
  by (cases em) (simp_all add: upsertLicense_def)

lemma admin_add_license_granted:
  assumes "admin_add_license e req d = Inr (resp, d')" and "payload resp = AdminGranted lic"
  shows "upsertLicense e (body_email req) None None
      (months_from (LocalTZA e) (now e) (case body_months req of None \<Rightarrow> 1 | Some m \<Rightarrow> m))
      True d = Inr (lic, d')"
  using assms
  by (auto simp add: admin_add_license_def Let_def split: if_splits sum.splits)

text \<open>The answer of the query for an e-mail that has a row.\<close>

lemma check_license_row:
  assumes "s \<noteq> []" and "\<not> query_fails e" and "rows d (toLowerCase (unicode e) s) = Some lic"
  shows "check_license e (JStr s) d =
     (\<lparr>status = 200,
       payload =
         (if \<not> active lic then CheckDenied ''Subscription inactive.''
          else if \<exists>x. expires_at lic = Some x \<and> x < now e
          then CheckDenied ''Subscription expired.''
          else CheckValid ''Valid license.'' (expires_at lic))\<rparr>, d)"
  using assms
  by (auto simp add: check_license_def check_license_try_def findLicenseByEmail_def
      split: option.splits)

subsection \<open>The scenarios, evaluated\<close>

lemmas handler_defs =
  check_license_def check_license_try_def findLicenseByEmail_def admin_add_license_def
  upsertLicense_def webhook_switch_def stripe_webhook_handler_def Let_def

lemma ascii_eq_iff [simp]: "(ascii s = ascii t) = (s = t)"
  by (simp add: ascii_def inj_map_eq_map inj_on_def)

lemma ascii_Nil_iff [simp]: "(ascii s = []) = (s = [])" "([] = ascii s) = (s = [])"
  by (auto simp add: ascii_def)

lemma unicode_env [simp]:
  "unicode env1 = ucd_part" "unicode env2 = ucd_part" "unicode env_down = ucd_part"
  by (simp_all add: env1_def env2_def env_down_def)

lemmas scenario_defs =
  env1_def env2_def env_down_def db_empty_def grant_a_def lic_a_def db_a_def lookup_def
  verifier_def db_four_def req_signed_def

text \<open>One month from 2023-11-14T22:13:20Z, and from 2023-01-31, whose day of the month
  runs over the end of February into 2023-03-03.\<close>

lemma months_1700: "months_from utc 1700000000000 1 = Some 1702592000000"
  by code_simp

lemma months_1700_0: "months_from utc 1700000000000 0 = Some 1700000000000"
  by code_simp

lemma months_1700_later: "months_from utc 1700000001000 1 = Some 1702592001000"
  by code_simp

lemma months_jan_31: "months_from utc 1675123200000 1 = Some 1677801600000"
  by code_simp

lemma lower_a: "toLowerCase ucd_part (ascii ''A@x.com'') = (ascii ''a@x.com'')"
  by code_simp

lemma lower_carol: "toLowerCase ucd_part (ascii ''Carol@X.com'') = (ascii ''carol@x.com'')"
  by code_simp

lemma lower_plain:
  "toLowerCase ucd_part (ascii ''carol@x.com'') = (ascii ''carol@x.com'')" "toLowerCase ucd_part (ascii ''i@x.com'') = (ascii ''i@x.com'')"
  "toLowerCase ucd_part (ascii ''o@x.com'') = (ascii ''o@x.com'')" "toLowerCase ucd_part (ascii ''b@x.com'') = (ascii ''b@x.com'')"
  "toLowerCase ucd_part (ascii ''n@x.com'') = (ascii ''n@x.com'')"
  by code_simp+

lemma utc_bounded: "\<bar>LocalTZA env1 t b\<bar> < msPerDay"
  by (simp add: env1_def utc_def msPerDay_def)

lemma admin_grant_a:
  "admin_add_license env1 (grant_a None) db_empty =
     Inr (\<lparr>status = 200, payload = AdminGranted (lic_a 1702592000000 1700000000123)\<rparr>,
          db_a 1702592000000 1700000000123 2)"
  by (simp add: handler_defs scenario_defs months_1700 lower_a)

lemma admin_grant_a_again:
  "admin_add_license env2 (grant_a None) (db_a 1702592000000 1700000000123 2) =
     Inr (\<lparr>status = 200, payload = AdminGranted (lic_a 1702592001000 1700000001456)\<rparr>,
          db_a 1702592001000 1700000001456 3)"
  by (simp add: handler_defs scenario_defs months_1700_later lower_a)

lemma rows_db_four:
  "rows db_four (ascii ''carol@x.com'') = Some lic_carol" "rows db_four (ascii ''i@x.com'') = Some lic_inactive"
  "rows db_four (ascii ''o@x.com'') = Some lic_old" "rows db_four (ascii ''b@x.com'') = Some lic_edge"
  "rows db_four (ascii ''n@x.com'') = None"
  by (simp_all add: db_four_def)

text \<open>A completed checkout and a paid invoice of Carol at \<open>env1\<close>; the new expiry is
  2023-12-14T22:13:20Z.\<close>

lemma checkout_carol:
  "webhook_switch env1 (CheckoutSessionCompleted (JStr (ascii ''Carol@X.com'')) (Some ''cus_1'')
       (Some ''sub_1'')) db_four =
     Inr (Some lic_carol_renewed,
          db_four\<lparr>rows := (rows db_four)((ascii ''carol@x.com'') \<mapsto> lic_carol_renewed), next_id := 6\<rparr>)"
  by (simp add: handler_defs scenario_defs months_1700 lower_carol lic_carol_renewed_def
      lic_carol_def)

lemma invoice_carol:
  "webhook_switch env1 (InvoicePaymentSucceeded (Some ''sub_1'') ''cus_1'') db_four =
     Inr (Some lic_carol_renewed,
          db_four\<lparr>rows := (rows db_four)((ascii ''carol@x.com'') \<mapsto> lic_carol_renewed), next_id := 6\<rparr>)"
  by (simp add: handler_defs scenario_defs months_1700 lower_carol lic_carol_renewed_def
      lic_carol_def)

section \<open>Expiry of a grant\<close>

text \<open>
  C8. A grant or renewal sets an expiry strictly after the moment of processing. This
  holds for the two billing events, which add one month, and for an administrative
  grant whose number of months is at least 1 (the default included), on a host whose
  zone offsets stay below a day.
\<close>

theorem grant_expiry_in_future:
  assumes tz: "\<And>t b. \<bar>LocalTZA e t b\<bar> < msPerDay"
  shows "(admin_add_license e req d = Inr (resp, d1) \<and> payload resp = AdminGranted lic1 \<and>
            1 \<le> (case body_months req of None \<Rightarrow> 1 | Some m \<Rightarrow> m)
          \<longrightarrow> (\<exists>x. expires_at lic1 = Some x \<and> now e < x)) \<and>
         (webhook_switch e (CheckoutSessionCompleted session_email customer subscription) d
            = Inr (Some lic2, d2)
          \<longrightarrow> (\<exists>x. expires_at lic2 = Some x \<and> now e < x)) \<and>
         (webhook_switch e (InvoicePaymentSucceeded subscriptionId customerId) d
            = Inr (Some lic3, d3)
          \<longrightarrow> (\<exists>x. expires_at lic3 = Some x \<and> now e < x))"
proof (intro conjI impI)
  assume a: "admin_add_license e req d = Inr (resp, d1) \<and> payload resp = AdminGranted lic1 \<and>
      1 \<le> (case body_months req of None \<Rightarrow> 1 | Some m \<Rightarrow> m)"
  define k where "k = (case body_months req of None \<Rightarrow> 1 | Some m \<Rightarrow> m)"
  from a have u: "upsertLicense e (body_email req) None None (months_from (LocalTZA e) (now e) k)
      True d = Inr (lic1, d1)"
    unfolding k_def by (auto intro: admin_add_license_granted)
  then have "expires_at lic1 = months_from (LocalTZA e) (now e) k"
    by (rule upsertLicense_fields)
  moreover from u obtain v where "months_from (LocalTZA e) (now e) k = Some v"
    by (auto elim: upsertLicense_result)
  moreover from this have "now e < v"
    using a tz by (auto simp add: k_def intro: months_from_later)
  ultimately show "\<exists>x. expires_at lic1 = Some x \<and> now e < x" by simp
next
  assume "webhook_switch e (CheckoutSessionCompleted session_email customer subscription) d
      = Inr (Some lic2, d2)"
  then have u: "upsertLicense e session_email customer subscription
      (months_from (LocalTZA e) (now e) 1) True d = Inr (lic2, d2)"
    by (auto simp add: webhook_switch_def split: sum.splits)
  then have "expires_at lic2 = months_from (LocalTZA e) (now e) 1"
    by (rule upsertLicense_fields)
  moreover from u obtain v where "months_from (LocalTZA e) (now e) 1 = Some v"
    by (auto elim: upsertLicense_result)
  moreover from this have "now e < v"
    using tz by (auto intro: months_from_later)
  ultimately show "\<exists>x. expires_at lic2 = Some x \<and> now e < x" by simp
next
  assume "webhook_switch e (InvoicePaymentSucceeded subscriptionId customerId) d
      = Inr (Some lic3, d3)"
  then obtain em where u: "upsertLicense e em (Some customerId) subscriptionId
      (months_from (LocalTZA e) (now e) 1) True d = Inr (lic3, d3)"
    by (auto simp add: webhook_switch_def split: sum.splits)
  then have "expires_at lic3 = months_from (LocalTZA e) (now e) 1"
    by (rule upsertLicense_fields)
  moreover from u obtain v where "months_from (LocalTZA e) (now e) 1 = Some v"
    by (auto elim: upsertLicense_result)
  moreover from this have "now e < v"
    using tz by (auto intro: months_from_later)
  ultimately show "\<exists>x. expires_at lic3 = Some x \<and> now e < x" by simp
qed

theorem grant_expiry_in_future_witness:
  "admin_add_license env1 (grant_a None) db_empty =
     Inr (\<lparr>status = 200, payload = AdminGranted (lic_a 1702592000000 1700000000123)\<rparr>,
          db_a 1702592000000 1700000000123 2) \<and>
   (\<exists>x. expires_at (lic_a 1702592000000 1700000000123) = Some x \<and> now env1 < x) \<and>
   (\<exists>x. expires_at lic_carol_renewed = Some x \<and> now env1 < x)"
proof -
  note g = grant_expiry_in_future [of env1, OF utc_bounded]
  have "\<exists>x. expires_at (lic_a 1702592000000 1700000000123) = Some x \<and> now env1 < x"
    using g [THEN conjunct1, of "grant_a None" db_empty _ _ "lic_a 1702592000000 1700000000123"]
      admin_grant_a
    by (fastforce simp add: grant_a_def)
  moreover have "\<exists>x. expires_at lic_carol_renewed = Some x \<and> now env1 < x"
    using g [THEN conjunct2, THEN conjunct1] checkout_carol by blast
  moreover have "\<exists>x. expires_at lic_carol_renewed = Some x \<and> now env1 < x"
    using g [THEN conjunct2, THEN conjunct2] invoice_carol by blast
  ultimately show ?thesis using admin_grant_a by simp
qed

text \<open>An administrative grant of zero months sets the expiry to the moment of processing
  itself, which is not in the future.\<close>

theorem admin_grant_zero_months_counterexample:
  "admin_add_license env1 (grant_a (Some 0)) db_empty =
     Inr (\<lparr>status = 200, payload = AdminGranted (lic_a 1700000000000 1700000000123)\<rparr>,
          db_a 1700000000000 1700000000123 2) \<and>
   expires_at (lic_a 1700000000000 1700000000123) = Some (now env1)"
  by (simp add: handler_defs scenario_defs months_1700_0 lower_a)

section \<open>The license query\<close>

text \<open>
  C4. The query takes its cases in order and answers with the first that applies:
  a missing e-mail; no row for the lower-cased e-mail; an inactive row, whatever its
  expiry; an active row whose expiry is strictly before the time of the query; and
  otherwise a valid license with the expiry of the row, which may be absent.
\<close>

theorem check_license_order:
  "(falsy em \<longrightarrow>
      check_license e em d = (\<lparr>status = 200, payload = CheckDenied ''Missing email.''\<rparr>, d)) \<and>
   (s \<noteq> [] \<and> \<not> query_fails e \<and> rows d (toLowerCase (unicode e) s) = None \<longrightarrow>
      check_license e (JStr s) d =
        (\<lparr>status = 200, payload = CheckDenied ''Not licensed.''\<rparr>, d)) \<and>
   (s \<noteq> [] \<and> \<not> query_fails e \<and> rows d (toLowerCase (unicode e) s) = Some lic \<and> \<not> active lic \<longrightarrow>
      check_license e (JStr s) d =
        (\<lparr>status = 200, payload = CheckDenied ''Subscription inactive.''\<rparr>, d)) \<and>
   (s \<noteq> [] \<and> \<not> query_fails e \<and> rows d (toLowerCase (unicode e) s) = Some lic \<and> active lic \<and>
    expires_at lic = Some x \<and> x < now e \<longrightarrow>
      check_license e (JStr s) d =
        (\<lparr>status = 200, payload = CheckDenied ''Subscription expired.''\<rparr>, d)) \<and>
   (s \<noteq> [] \<and> \<not> query_fails e \<and> rows d (toLowerCase (unicode e) s) = Some lic \<and> active lic \<and>
    (expires_at lic = None \<or> expires_at lic = Some x \<and> now e \<le> x) \<longrightarrow>
      check_license e (JStr s) d =
        (\<lparr>status = 200, payload = CheckValid ''Valid license.'' (expires_at lic)\<rparr>, d))"
proof (intro conjI impI)
  assume "falsy em"
  then show "check_license e em d =
      (\<lparr>status = 200, payload = CheckDenied ''Missing email.''\<rparr>, d)"
    by (simp add: check_license_def check_license_try_def)
next
  assume "s \<noteq> [] \<and> \<not> query_fails e \<and> rows d (toLowerCase (unicode e) s) = None"
  then show "check_license e (JStr s) d =
      (\<lparr>status = 200, payload = CheckDenied ''Not licensed.''\<rparr>, d)"
    by (simp add: check_license_def check_license_try_def findLicenseByEmail_def)
next
  assume "s \<noteq> [] \<and> \<not> query_fails e \<and> rows d (toLowerCase (unicode e) s) = Some lic \<and> \<not> active lic"
  then show "check_license e (JStr s) d =
      (\<lparr>status = 200, payload = CheckDenied ''Subscription inactive.''\<rparr>, d)"
    by (simp add: check_license_row)
next
  assume "s \<noteq> [] \<and> \<not> query_fails e \<and> rows d (toLowerCase (unicode e) s) = Some lic \<and> active lic \<and>
      expires_at lic = Some x \<and> x < now e"
  then show "check_license e (JStr s) d =
      (\<lparr>status = 200, payload = CheckDenied ''Subscription expired.''\<rparr>, d)"
    by (simp add: check_license_row)
next
  assume a: "s \<noteq> [] \<and> \<not> query_fails e \<and> rows d (toLowerCase (unicode e) s) = Some lic \<and> active lic \<and>
      (expires_at lic = None \<or> expires_at lic = Some x \<and> now e \<le> x)"
  then have "\<not> (\<exists>y. expires_at lic = Some y \<and> y < now e)" by auto
  with a show "check_license e (JStr s) d =
      (\<lparr>status = 200, payload = CheckValid ''Valid license.'' (expires_at lic)\<rparr>, d)"
    by (simp add: check_license_row)
qed

theorem check_license_order_witness:
  "check_license env1 (JStr []) db_four =
     (\<lparr>status = 200, payload = CheckDenied ''Missing email.''\<rparr>, db_four) \<and>
   check_license env1 (JStr (ascii ''n@x.com'')) db_four =
     (\<lparr>status = 200, payload = CheckDenied ''Not licensed.''\<rparr>, db_four) \<and>
   check_license env1 (JStr (ascii ''i@x.com'')) db_four =
     (\<lparr>status = 200, payload = CheckDenied ''Subscription inactive.''\<rparr>, db_four) \<and>
   check_license env1 (JStr (ascii ''o@x.com'')) db_four =
     (\<lparr>status = 200, payload = CheckDenied ''Subscription expired.''\<rparr>, db_four) \<and>
   check_license env1 (JStr (ascii ''Carol@X.com'')) db_four =
     (\<lparr>status = 200, payload = CheckValid ''Valid license.'' (Some 1701000000000)\<rparr>, db_four)"
proof -
  have q: "\<not> query_fails env1" by (simp add: env1_def)
  have n: "now env1 = 1700000000000" by (simp add: env1_def)
  have "check_license env1 (JStr []) db_four =
      (\<lparr>status = 200, payload = CheckDenied ''Missing email.''\<rparr>, db_four)"
    using check_license_order [of "JStr []" env1 db_four] by simp
  moreover have "check_license env1 (JStr (ascii ''n@x.com'')) db_four =
      (\<lparr>status = 200, payload = CheckDenied ''Not licensed.''\<rparr>, db_four)"
    using check_license_order [of _ env1 db_four "(ascii ''n@x.com'')"] q
    by (simp add: lower_plain rows_db_four)
  moreover have "check_license env1 (JStr (ascii ''i@x.com'')) db_four =
      (\<lparr>status = 200, payload = CheckDenied ''Subscription inactive.''\<rparr>, db_four)"
    using check_license_order [of _ env1 db_four "(ascii ''i@x.com'')" lic_inactive] q
    by (simp add: lower_plain rows_db_four lic_inactive_def)
  moreover have "check_license env1 (JStr (ascii ''o@x.com'')) db_four =
      (\<lparr>status = 200, payload = CheckDenied ''Subscription expired.''\<rparr>, db_four)"
    using check_license_order [of _ env1 db_four "(ascii ''o@x.com'')" lic_old 1699999999999] q n
    by (simp add: lower_plain rows_db_four lic_old_def)
  moreover have "check_license env1 (JStr (ascii ''Carol@X.com'')) db_four =
      (\<lparr>status = 200, payload = CheckValid ''Valid license.'' (Some 1701000000000)\<rparr>, db_four)"
    using check_license_order [of _ env1 db_four "(ascii ''Carol@X.com'')" lic_carol 1701000000000] q n
    by (simp add: lower_carol rows_db_four lic_carol_def)
  ultimately show ?thesis by simp
qed

text \<open>
  C2. An active license with an expiry is refused as expired exactly when the expiry is
  strictly before the time of the query. At an expiry equal to that time, and at any
  later one, the license is valid.
\<close>

theorem check_license_expired_iff_strictly_past:
  assumes "s \<noteq> []" and "\<not> query_fails e" and "rows d (toLowerCase (unicode e) s) = Some lic"
    and "active lic" and "expires_at lic = Some x"
  shows "check_license e (JStr s) d =
     (\<lparr>status = 200,
       payload = (if x < now e then CheckDenied ''Subscription expired.''
                  else CheckValid ''Valid license.'' (Some x))\<rparr>, d)"
  using assms by (simp add: check_license_row)

theorem check_license_expired_iff_strictly_past_witness:
  "check_license env1 (JStr (ascii ''o@x.com'')) db_four =
     (\<lparr>status = 200, payload = CheckDenied ''Subscription expired.''\<rparr>, db_four) \<and>
   expires_at lic_old = Some 1699999999999 \<and> 1699999999999 < now env1"
proof -
  have "(ascii ''o@x.com'') \<noteq> []" by simp
  moreover have "\<not> query_fails env1" by (simp add: env1_def)
  moreover have "rows db_four (toLowerCase (unicode env1) (ascii ''o@x.com'')) = Some lic_old"
    by (simp add: lower_plain rows_db_four)
  moreover have "active lic_old" by (simp add: lic_old_def)
  moreover have x: "expires_at lic_old = Some 1699999999999" by (simp add: lic_old_def)
  ultimately have "check_license env1 (JStr (ascii ''o@x.com'')) db_four =
     (\<lparr>status = 200,
       payload = (if 1699999999999 < now env1 then CheckDenied ''Subscription expired.''
                  else CheckValid ''Valid license.'' (Some 1699999999999))\<rparr>, db_four)"
    by (rule check_license_expired_iff_strictly_past)
  then show ?thesis using x by (simp add: env1_def)
qed

text \<open>A license that expires at the very instant of the query is answered as valid.\<close>

theorem check_license_at_expiry_counterexample:
  "rows db_four (ascii ''b@x.com'') = Some lic_edge \<and> active lic_edge \<and>
   expires_at lic_edge = Some (now env1) \<and>
   check_license env1 (JStr (ascii ''b@x.com'')) db_four =
     (\<lparr>status = 200, payload = CheckValid ''Valid license.'' (Some 1700000000000)\<rparr>, db_four)"
  by (simp add: handler_defs env1_def lower_plain rows_db_four lic_edge_def)

text \<open>
  C10. A failure inside the query, such as a rejected database query or an e-mail
  that is no string, is answered with status 200, \<open>valid\<close> false and the message of a
  server error. Every answer of the query has status 200, and the table is the one
  the query was given.
\<close>

theorem check_license_fails_closed:
  "(check_license_try e em d = Inl err \<longrightarrow>
      check_license e em d = (\<lparr>status = 200, payload = CheckDenied ''Server error.''\<rparr>, d) \<and>
      \<not> valid (payload (fst (check_license e em d)))) \<and>
   (\<not> falsy em \<and> query_fails e \<longrightarrow> (\<exists>err'. check_license_try e em d = Inl err')) \<and>
   status (fst (check_license e em d)) = 200 \<and>
   snd (check_license e em d) = d"
proof (intro conjI impI)
  assume "check_license_try e em d = Inl err"
  then show "check_license e em d =
      (\<lparr>status = 200, payload = CheckDenied ''Server error.''\<rparr>, d)"
    by (simp add: check_license_def)
  then show "\<not> valid (payload (fst (check_license e em d)))" by simp
next
  assume "\<not> falsy em \<and> query_fails e"
  then show "\<exists>err'. check_license_try e em d = Inl err'"
    by (cases em) (simp_all add: check_license_try_def findLicenseByEmail_def)
next
  show "status (fst (check_license e em d)) = 200"
    by (simp add: check_license_def split: sum.splits)
  show "snd (check_license e em d) = d"
    by (simp add: check_license_def split: sum.splits)
qed

theorem check_license_fails_closed_witness:
  "check_license_try env_down (JStr (ascii ''carol@x.com'')) db_four = Inl DatabaseError \<and>
   check_license env_down (JStr (ascii ''carol@x.com'')) db_four =
     (\<lparr>status = 200, payload = CheckDenied ''Server error.''\<rparr>, db_four) \<and>
   check_license_try env1 (JNum 7) db_four = Inl TypeError \<and>
   check_license env1 (JNum 7) db_four =
     (\<lparr>status = 200, payload = CheckDenied ''Server error.''\<rparr>, db_four)"
proof -
  have a: "check_license_try env_down (JStr (ascii ''carol@x.com'')) db_four = Inl DatabaseError"
    by (simp add: check_license_try_def findLicenseByEmail_def env_down_def)
  have b: "check_license_try env1 (JNum 7) db_four = Inl TypeError"
    by (simp add: check_license_try_def findLicenseByEmail_def)
  from a b show ?thesis
    using check_license_fails_closed [of env_down "JStr (ascii ''carol@x.com'')" db_four DatabaseError]
      check_license_fails_closed [of env1 "JNum 7" db_four TypeError]
    by simp
qed

section \<open>Billing events\<close>

text \<open>
  A paid invoice or a cancellation whose customer lookup throws, or returns a customer
  whose e-mail is no string (null for a customer that has none, undefined for a deleted
  customer), is not reconciled: the handler fails before any query is sent, the table
  stays as it was, and the event is still acknowledged with status 200.
\<close>

lemma unresolved_customer_is_dropped:
  assumes "ev = InvoicePaymentSucceeded subscriptionId customerId \<or>
      ev = CustomerSubscriptionDeleted customerId"
    and "\<forall>s. customers_retrieve e customerId \<noteq> Inr (JStr s)"
  shows "(\<exists>err. webhook_switch e ev d = Inl err) \<and>
     stripe_webhook_handler e ev d = (\<lparr>status = 200, payload = Received\<rparr>, d) \<and>
     rows (snd (stripe_webhook_handler e ev d)) [] = rows d []"
proof -
  have "\<exists>err. webhook_switch e ev d = Inl err"
  proof (cases "customers_retrieve e customerId")
    case (Inl err)
    with assms(1) show ?thesis by (auto simp add: webhook_switch_def)
  next
    case (Inr em)
    with assms(2) have "\<forall>s. em \<noteq> JStr s" by simp
    then have "upsertLicense e em c sub x a d = Inl TypeError" for c sub x a
      by (rule upsertLicense_not_string)
    with Inr assms(1) show ?thesis by (auto simp add: webhook_switch_def)
  qed
  then show ?thesis by (auto simp add: stripe_webhook_handler_def)
qed

lemma unresolved_customer_is_dropped_example:
  "customers_retrieve env1 ''cus_2'' = Inr Null \<and>
   customers_retrieve env1 ''cus_9'' = Inl StripeError \<and>
   stripe_webhook_handler env1 (InvoicePaymentSucceeded (Some ''sub_2'') ''cus_2'') db_four =
     (\<lparr>status = 200, payload = Received\<rparr>, db_four) \<and>
   stripe_webhook_handler env1 (CustomerSubscriptionDeleted ''cus_9'') db_four =
     (\<lparr>status = 200, payload = Received\<rparr>, db_four)"
proof -
  have a: "customers_retrieve env1 ''cus_2'' = Inr Null"
    and b: "customers_retrieve env1 ''cus_9'' = Inl StripeError"
    by (simp_all add: env1_def lookup_def)
  have "\<forall>s. customers_retrieve env1 ''cus_2'' \<noteq> Inr (JStr s)" using a by simp
  moreover have "\<forall>s. customers_retrieve env1 ''cus_9'' \<noteq> Inr (JStr s)" using b by simp
  ultimately show ?thesis
    using a b
      unresolved_customer_is_dropped [of "InvoicePaymentSucceeded (Some ''sub_2'') ''cus_2''"
        "Some ''sub_2''" "''cus_2''" env1 db_four]
      unresolved_customer_is_dropped [of "CustomerSubscriptionDeleted ''cus_9''"
        None "''cus_9''" env1 db_four]
    by simp
qed

text \<open>
  C5. A billing event whose customer lookup gives no e-mail is to fail and to create no
  License, least of all one keyed on the empty identity. The handler does not test the
  e-mail it gets: a null or undefined e-mail stops it only through the error of
  \<^verbatim>\<open>toLowerCase\<close>, and the empty string, which the other two routes refuse as a
  missing e-mail, passes. The paid invoice of \<^verbatim>\<open>cus_4\<close>, whose e-mail is the empty
  string, inserts an active row under the empty key and is acknowledged; the
  administrative grant for the same e-mail is refused and the query answers that the
  e-mail is missing.
\<close>

theorem empty_email_creates_license:
  "customers_retrieve env1 ''cus_4'' = Inr (JStr []) \<and>
   rows db_four [] = None \<and>
   stripe_webhook_handler env1 (InvoicePaymentSucceeded (Some ''sub_4'') ''cus_4'') db_four =
     (\<lparr>status = 200, payload = Received\<rparr>,
      db_four\<lparr>rows := (rows db_four)([] \<mapsto> lic_nobody), next_id := 6\<rparr>) \<and>
   email lic_nobody = [] \<and> active lic_nobody \<and>
   admin_add_license env1
       \<lparr>x_admin_key = Some ''secret'', body_email = JStr [], body_months = None\<rparr> db_four =
     Inr (\<lparr>status = 200, payload = AdminRefused ''Email required.''\<rparr>, db_four) \<and>
   check_license env1 (JStr []) db_four =
     (\<lparr>status = 200, payload = CheckDenied ''Missing email.''\<rparr>, db_four)"
proof (intro conjI)
  show "customers_retrieve env1 ''cus_4'' = Inr (JStr [])"
    by (simp add: env1_def lookup_def)
  show "rows db_four [] = None"
    by (simp add: db_four_def)
  show "stripe_webhook_handler env1 (InvoicePaymentSucceeded (Some ''sub_4'') ''cus_4'') db_four =
      (\<lparr>status = 200, payload = Received\<rparr>,
       db_four\<lparr>rows := (rows db_four)([] \<mapsto> lic_nobody), next_id := 6\<rparr>)"
    by (simp add: handler_defs scenario_defs months_1700 toLowerCase_def lic_nobody_def)
  show "email lic_nobody = []" and "active lic_nobody"
    by (simp_all add: lic_nobody_def)
  show "admin_add_license env1
       \<lparr>x_admin_key = Some ''secret'', body_email = JStr [], body_months = None\<rparr> db_four =
     Inr (\<lparr>status = 200, payload = AdminRefused ''Email required.''\<rparr>, db_four)"
    by (simp add: admin_add_license_def env1_def)
  show "check_license env1 (JStr []) db_four =
     (\<lparr>status = 200, payload = CheckDenied ''Missing email.''\<rparr>, db_four)"
    by (simp add: check_license_def check_license_try_def)
qed

text \<open>
  C3. A cancellation whose customer resolves to an e-mail with a row keeps the row, with
  its \<^verbatim>\<open>id\<close>, e-mail and time of creation, sets it inactive with the expiry at the
  moment of processing, and writes NULL into both Stripe columns: the upsert overwrites
  them with parameters the cancellation does not pass.
\<close>

theorem cancellation_keeps_row_and_clears_refs:
  assumes "customers_retrieve e customerId = Inr (JStr s)" and "\<not> query_fails e"
    and "rows d (toLowerCase (unicode e) s) = Some old"
  shows "webhook_switch e (CustomerSubscriptionDeleted customerId) d =
     Inr (Some (old\<lparr>active := False, expires_at := Some (now e),
                    stripe_customer_id := None, stripe_subscription_id := None,
                    updated_at := db_now e\<rparr>),
          d\<lparr>rows := (rows d)(toLowerCase (unicode e) s \<mapsto>
                 old\<lparr>active := False, expires_at := Some (now e),
                     stripe_customer_id := None, stripe_subscription_id := None,
                     updated_at := db_now e\<rparr>),
            next_id := next_id d + 1\<rparr>)"
  using assms by (simp add: webhook_switch_def upsertLicense_def Let_def)

theorem cancellation_keeps_row_and_clears_refs_witness:
  "customers_retrieve env1 ''cus_1'' = Inr (JStr (ascii ''Carol@X.com'')) \<and>
   rows db_four (toLowerCase (unicode env1) (ascii ''Carol@X.com'')) = Some lic_carol \<and>
   webhook_switch env1 (CustomerSubscriptionDeleted ''cus_1'') db_four =
     Inr (Some lic_carol_canceled,
          db_four\<lparr>rows := (rows db_four)((ascii ''carol@x.com'') \<mapsto> lic_carol_canceled),
            next_id := 6\<rparr>)"
proof -
  have a: "customers_retrieve env1 ''cus_1'' = Inr (JStr (ascii ''Carol@X.com''))"
    by (simp add: env1_def lookup_def)
  have b: "\<not> query_fails env1" by (simp add: env1_def)
  have c: "rows db_four (toLowerCase (unicode env1) (ascii ''Carol@X.com'')) = Some lic_carol"
    by (simp add: lower_carol rows_db_four)
  show ?thesis
    using a c cancellation_keeps_row_and_clears_refs [OF a b c]
    by (simp add: lower_carol lic_carol_canceled_def lic_carol_def env1_def db_four_def)
qed

text \<open>Carol's row carries both Stripe identifiers before her cancellation and neither
  after it.\<close>

theorem cancellation_clears_refs_counterexample:
  "rows db_four (ascii ''carol@x.com'') = Some lic_carol \<and>
   stripe_customer_id lic_carol = Some ''cus_1'' \<and>
   stripe_subscription_id lic_carol = Some ''sub_1'' \<and>
   webhook_switch env1 (CustomerSubscriptionDeleted ''cus_1'') db_four =
     Inr (Some lic_carol_canceled,
          db_four\<lparr>rows := (rows db_four)((ascii ''carol@x.com'') \<mapsto> lic_carol_canceled),
            next_id := 6\<rparr>) \<and>
   stripe_customer_id lic_carol_canceled = None \<and>
   stripe_subscription_id lic_carol_canceled = None"
  by (simp add: handler_defs scenario_defs lower_carol rows_db_four lic_carol_canceled_def
      lic_carol_def)

section \<open>Administrative grants\<close>

text \<open>
  C6. Two administrative grants of the same request on one host, one after the other,
  leave one row for the e-mail. The second license is the first with two columns
  changed: its time of update is the database time of the second call, and its expiry
  is the time of the second call plus the months, as the expiry of the first is the
  time of the first call plus the months. The \<^verbatim>\<open>id\<close>, the e-mail, the activity,
  the empty Stripe columns and the time of creation are those of the first.
\<close>

theorem admin_grant_twice:
  assumes "admin_add_license e1 req d = Inr (resp1, d1)" and "payload resp1 = AdminGranted lic1"
    and "admin_add_license e2 req d1 = Inr (resp2, d2)" and "payload resp2 = AdminGranted lic2"
    and "unicode e2 = unicode e1"
  shows "lic2 =
       lic1\<lparr>expires_at :=
              months_from (LocalTZA e2) (now e2)
                (case body_months req of None \<Rightarrow> 1 | Some m \<Rightarrow> m),
            updated_at := db_now e2\<rparr> \<and>
     expires_at lic1 =
       months_from (LocalTZA e1) (now e1) (case body_months req of None \<Rightarrow> 1 | Some m \<Rightarrow> m) \<and>
     updated_at lic1 = db_now e1 \<and>
     dom (rows d2) = dom (rows d1)"
proof -
  define k where "k = (case body_months req of None \<Rightarrow> 1 | Some m \<Rightarrow> m)"
  have u1: "upsertLicense e1 (body_email req) None None (months_from (LocalTZA e1) (now e1) k)
      True d = Inr (lic1, d1)"
    unfolding k_def using assms(1,2) by (rule admin_add_license_granted)
  have u2: "upsertLicense e2 (body_email req) None None (months_from (LocalTZA e2) (now e2) k)
      True d1 = Inr (lic2, d2)"
    unfolding k_def using assms(3,4) by (rule admin_add_license_granted)
  from u1 obtain s where s: "body_email req = JStr s"
    by (auto elim: upsertLicense_result)
  have f1: "expires_at lic1 = months_from (LocalTZA e1) (now e1) k" "active lic1"
    "stripe_customer_id lic1 = None" "stripe_subscription_id lic1 = None"
    "updated_at lic1 = db_now e1"
    using upsertLicense_fields [OF u1] by simp_all
  have r1: "rows d1 (toLowerCase (unicode e2) s) = Some lic1"
    unfolding assms(5) using u1 unfolding s by (rule upsertLicense_stored)
  have l2: "lic2 = lic1\<lparr>active := True, expires_at := months_from (LocalTZA e2) (now e2) k,
      stripe_customer_id := None, stripe_subscription_id := None, updated_at := db_now e2\<rparr>"
    using u2 r1 unfolding s by (rule upsertLicense_existing)
  have "dom (rows d2) = insert (toLowerCase (unicode e2) s) (dom (rows d1))"
    using u2 unfolding s by (rule upsertLicense_stored)
  then have "dom (rows d2) = dom (rows d1)" using r1 by auto
  then show ?thesis using l2 f1 by (simp add: k_def)
qed

theorem admin_grant_twice_witness:
  "admin_add_license env1 (grant_a None) db_empty =
     Inr (\<lparr>status = 200, payload = AdminGranted (lic_a 1702592000000 1700000000123)\<rparr>,
          db_a 1702592000000 1700000000123 2) \<and>
   admin_add_license env2 (grant_a None) (db_a 1702592000000 1700000000123 2) =
     Inr (\<lparr>status = 200, payload = AdminGranted (lic_a 1702592001000 1700000001456)\<rparr>,
          db_a 1702592001000 1700000001456 3) \<and>
   lic_a 1702592001000 1700000001456 =
     (lic_a 1702592000000 1700000000123)
       \<lparr>expires_at := months_from (LocalTZA env2) (now env2) 1, updated_at := db_now env2\<rparr> \<and>
   months_from (LocalTZA env2) (now env2) 1 = Some 1702592001000"
proof -
  have p1: "payload \<lparr>status = 200, payload = AdminGranted (lic_a 1702592000000 1700000000123)\<rparr>
      = AdminGranted (lic_a 1702592000000 1700000000123)"
    by simp
  have p2: "payload \<lparr>status = 200, payload = AdminGranted (lic_a 1702592001000 1700000001456)\<rparr>
      = AdminGranted (lic_a 1702592001000 1700000001456)"
    by simp
  have h: "unicode env2 = unicode env1" by (simp add: env1_def env2_def)
  have m: "(case body_months (grant_a None) of None \<Rightarrow> 1 | Some m \<Rightarrow> m) = 1"
    by (simp add: grant_a_def)
  note t = admin_grant_twice [OF admin_grant_a p1 admin_grant_a_again p2 h, unfolded m]
  from t have "lic_a 1702592001000 1700000001456 =
      (lic_a 1702592000000 1700000000123)
        \<lparr>expires_at := months_from (LocalTZA env2) (now env2) 1, updated_at := db_now env2\<rparr>"
    by (rule conjunct1)
  moreover have "months_from (LocalTZA env2) (now env2) 1 = Some 1702592001000"
    by (simp add: env2_def months_1700_later)
  ultimately show ?thesis
    using admin_grant_a admin_grant_a_again by (simp only: simp_thms)
qed

text \<open>The same grant one second later: the second license expires one second later than
  the first.\<close>

theorem admin_grant_twice_counterexample:
  "admin_add_license env1 (grant_a None) db_empty =
     Inr (\<lparr>status = 200, payload = AdminGranted (lic_a 1702592000000 1700000000123)\<rparr>,
          db_a 1702592000000 1700000000123 2) \<and>
   admin_add_license env2 (grant_a None) (db_a 1702592000000 1700000000123 2) =
     Inr (\<lparr>status = 200, payload = AdminGranted (lic_a 1702592001000 1700000001456)\<rparr>,
          db_a 1702592001000 1700000001456 3) \<and>
   expires_at (lic_a 1702592000000 1700000000123) = Some 1702592000000 \<and>
   expires_at (lic_a 1702592001000 1700000001456) = Some 1702592001000 \<and>
   lic_a 1702592001000 1700000001456 \<noteq>
     (lic_a 1702592000000 1700000000123)\<lparr>updated_at := 1700000001456\<rparr>"
  by (simp add: handler_defs scenario_defs months_1700 months_1700_later lower_a)

text \<open>
  C7. An administrative grant that follows a completed checkout for the same
  lower-cased e-mail returns the row of the checkout with both Stripe columns NULL,
  active, with the expiry and the time of update of the grant, and with the \<^verbatim>\<open>id\<close>
  and the time of creation the row had.
\<close>

theorem admin_grant_after_checkout:
  assumes "webhook_switch e1 (CheckoutSessionCompleted (JStr s1) customer subscription) d
      = Inr (Some lic1, d1)"
    and "admin_add_license e2 req d1 = Inr (resp, d2)" and "payload resp = AdminGranted lic2"
    and "body_email req = JStr s2"
    and "toLowerCase (unicode e2) s2 = toLowerCase (unicode e1) s1"
  shows "stripe_customer_id lic1 = customer \<and> stripe_subscription_id lic1 = subscription \<and>
     stripe_customer_id lic2 = None \<and> stripe_subscription_id lic2 = None \<and>
     active lic2 \<and>
     expires_at lic2 =
       months_from (LocalTZA e2) (now e2) (case body_months req of None \<Rightarrow> 1 | Some m \<Rightarrow> m) \<and>
     updated_at lic2 = db_now e2 \<and>
     created_at lic2 = created_at lic1 \<and> row_id lic2 = row_id lic1 \<and>
     email lic2 = email lic1 \<and>
     rows d2 (toLowerCase (unicode e1) s1) = Some lic2 \<and> dom (rows d2) = dom (rows d1)"
proof -
  define k where "k = (case body_months req of None \<Rightarrow> 1 | Some m \<Rightarrow> m)"
  from assms(1) have u1: "upsertLicense e1 (JStr s1) customer subscription
      (months_from (LocalTZA e1) (now e1) 1) True d = Inr (lic1, d1)"
    by (auto simp add: webhook_switch_def split: sum.splits)
  have u2: "upsertLicense e2 (JStr s2) None None (months_from (LocalTZA e2) (now e2) k)
      True d1 = Inr (lic2, d2)"
    unfolding k_def using admin_add_license_granted [OF assms(2,3)] assms(4) by simp
  have r1: "rows d1 (toLowerCase (unicode e2) s2) = Some lic1"
    unfolding assms(5) using u1 by (rule upsertLicense_stored)
  have l2: "lic2 = lic1\<lparr>active := True, expires_at := months_from (LocalTZA e2) (now e2) k,
      stripe_customer_id := None, stripe_subscription_id := None, updated_at := db_now e2\<rparr>"
    using u2 r1 by (rule upsertLicense_existing)
  have "rows d2 (toLowerCase (unicode e2) s2) = Some lic2"
    using u2 by (rule upsertLicense_stored)
  moreover have "dom (rows d2) = insert (toLowerCase (unicode e2) s2) (dom (rows d1))"
    using u2 by (rule upsertLicense_stored)
  then have "dom (rows d2) = dom (rows d1)" using r1 by auto
  ultimately show ?thesis
    using l2 upsertLicense_fields [OF u1] assms(5) by (simp add: k_def)
qed

theorem admin_grant_after_checkout_witness:
  "webhook_switch env1 (CheckoutSessionCompleted (JStr (ascii ''Carol@X.com'')) (Some ''cus_1'')
       (Some ''sub_1'')) db_four =
     Inr (Some lic_carol_renewed,
          db_four\<lparr>rows := (rows db_four)((ascii ''carol@x.com'') \<mapsto> lic_carol_renewed), next_id := 6\<rparr>) \<and>
   admin_add_license env2 grant_carol
       (db_four\<lparr>rows := (rows db_four)((ascii ''carol@x.com'') \<mapsto> lic_carol_renewed), next_id := 6\<rparr>) =
     Inr (\<lparr>status = 200, payload = AdminGranted lic_carol_granted\<rparr>,
          db_four\<lparr>rows := (rows db_four)((ascii ''carol@x.com'') \<mapsto> lic_carol_granted), next_id := 7\<rparr>) \<and>
   stripe_customer_id lic_carol_renewed = Some ''cus_1'' \<and>
   stripe_customer_id lic_carol_granted = None \<and>
   stripe_subscription_id lic_carol_granted = None \<and>
   created_at lic_carol_granted = created_at lic_carol_renewed"
proof -
  have g: "admin_add_license env2 grant_carol
       (db_four\<lparr>rows := (rows db_four)((ascii ''carol@x.com'') \<mapsto> lic_carol_renewed), next_id := 6\<rparr>) =
     Inr (\<lparr>status = 200, payload = AdminGranted lic_carol_granted\<rparr>,
          db_four\<lparr>rows := (rows db_four)((ascii ''carol@x.com'') \<mapsto> lic_carol_granted), next_id := 7\<rparr>)"
    by (simp add: handler_defs scenario_defs months_1700_later lower_plain grant_carol_def
        lic_carol_granted_def lic_carol_renewed_def lic_carol_def)
  have p: "payload \<lparr>status = 200, payload = AdminGranted lic_carol_granted\<rparr> =
      AdminGranted lic_carol_granted"
    by simp
  have b: "body_email grant_carol = JStr (ascii ''carol@x.com'')" by (simp add: grant_carol_def)
  have l: "toLowerCase (unicode env2) (ascii ''carol@x.com'') =
      toLowerCase (unicode env1) (ascii ''Carol@X.com'')"
    by (simp add: env1_def env2_def lower_plain lower_carol)
  note t = admin_grant_after_checkout [OF checkout_carol g p b l]
  show ?thesis
    using checkout_carol g t by (simp only:)
qed

section \<open>Identities\<close>

text \<open>The two alphabets pair each capital of Basic Latin with its small form, 32 above,
  and leave out no capital that \<open>toLowerCase\<close> moves.\<close>

lemma zip_letters:
  "zip capitals smalls =
     [(65, 97), (66, 98), (67, 99), (68, 100), (69, 101), (70, 102), (71, 103), (72, 104),
      (73, 105), (74, 106), (75, 107), (76, 108), (77, 109), (78, 110), (79, 111), (80, 112),
      (81, 113), (82, 114), (83, 115), (84, 116), (85, 117), (86, 118), (87, 119), (88, 120),
      (89, 121), (90, 122)]"
  by code_simp

lemma latin_cases_iff: "latin_cases a b = (is_upper a \<and> b = a + 32)"
proof
  assume "latin_cases a b"
  then show "is_upper a \<and> b = a + 32"
    by (auto simp add: latin_cases_def zip_letters is_upper_def)
next
  assume r: "is_upper a \<and> b = a + 32"
  then have "a = 65 \<or> a = 66 \<or> a = 67 \<or> a = 68 \<or> a = 69 \<or> a = 70 \<or> a = 71 \<or> a = 72 \<or>
      a = 73 \<or> a = 74 \<or> a = 75 \<or> a = 76 \<or> a = 77 \<or> a = 78 \<or> a = 79 \<or> a = 80 \<or>
      a = 81 \<or> a = 82 \<or> a = 83 \<or> a = 84 \<or> a = 85 \<or> a = 86 \<or> a = 87 \<or> a = 88 \<or>
      a = 89 \<or> a = 90"
    unfolding is_upper_def by arith
  with r show "latin_cases a b"
    by (elim disjE) (simp_all add: latin_cases_def zip_letters)
qed

lemma smalls_iff: "(b \<in> set smalls) = is_lower b"
proof
  assume "b \<in> set smalls"
  then have "b \<in> snd ` set (zip capitals smalls)"
    by (simp add: capitals_def smalls_def ascii_def)
  then show "is_lower b"
    by (auto simp add: zip_letters is_lower_def)
next
  assume "is_lower b"
  then have "is_upper (b - 32) \<and> b = (b - 32) + 32"
    by (auto simp add: is_lower_def is_upper_def)
  then have "latin_cases (b - 32) b" by (simp only: latin_cases_iff)
  then show "b \<in> set smalls"
    unfolding latin_cases_def by (rule set_zip_rightD)
qed

text \<open>A small form is its own lower-casing, and a capital other than the sigma is
  lower-cased to its small form, wherever it stands.\<close>

lemma small_form_lower:
  assumes "small_form u b" and "b \<noteq> 931"
  shows "toLowerCase_at u pre b post = [b]"
proof (cases "b < 128")
  case True
  with assms(1) have "is_lower b" by (simp add: small_form_def smalls_iff)
  then have "\<not> is_upper b" by (simp add: is_lower_def is_upper_def)
  with True show ?thesis by (simp add: toLowerCase_at_def)
next
  case False
  with assms show ?thesis by (simp add: small_form_def toLowerCase_at_def)
qed

lemma two_cases_lower:
  assumes "two_cases u a b" and "a \<noteq> 931" and "b \<noteq> 931"
  shows "toLowerCase_at u pre a post = [b]" and "toLowerCase_at u pre' b post' = [b]"
proof -
  from assms(1) consider "latin_cases a b"
    | "128 \<le> a" and "Lowercase_Mapping u a = [b]" and "small_form u b"
    by (auto simp add: two_cases_def)
  then have "toLowerCase_at u pre a post = [b] \<and> toLowerCase_at u pre' b post' = [b]"
  proof cases
    case 1
    then have "is_upper a" and "b = a + 32" by (simp_all add: latin_cases_iff)
    then show ?thesis by (simp add: toLowerCase_at_def is_upper_def)
  next
    case 2
    have "toLowerCase_at u pre a post = [b]"
      using 2(1,2) assms(2) by (simp add: toLowerCase_at_def)
    moreover have "toLowerCase_at u pre' b post' = [b]"
      using 2(3) assms(3) by (rule small_form_lower)
    ultimately show ?thesis by simp
  qed
  then show "toLowerCase_at u pre a post = [b]" and "toLowerCase_at u pre' b post' = [b]"
    by simp_all
qed

lemma same_letter_lower:
  assumes "same_letter u a b" and "a \<noteq> 931" and "b \<noteq> 931"
  shows "toLowerCase_at u pre a post = toLowerCase_at u pre' b post'"
proof -
  from assms(1) consider "a = b" | "two_cases u a b" | "two_cases u b a"
    by (auto simp add: same_letter_def)
  then show ?thesis
  proof cases
    case 1
    with assms(2) show ?thesis by (simp add: toLowerCase_at_def)
  next
    case 2
    then show ?thesis using assms(2,3) by (simp add: two_cases_lower)
  next
    case 3
    then show ?thesis using assms(2,3) by (simp add: two_cases_lower)
  qed
qed

lemma lower_from_same_letters:
  assumes "list_all2 (same_letter u) s t" and "931 \<notin> set s" and "931 \<notin> set t"
  shows "lower_from u pre s = lower_from u pre' t"
  using assms
proof (induction s t arbitrary: pre pre' rule: list_all2_induct)
  case Nil
  show ?case by simp
next
  case (Cons a s b t)
  have "toLowerCase_at u pre a s = toLowerCase_at u pre' b t"
    using Cons.hyps(1) Cons.prems by (intro same_letter_lower) simp_all
  moreover have "lower_from u (a # pre) s = lower_from u (b # pre') t"
    using Cons.prems by (intro Cons.IH) simp_all
  ultimately show ?case by simp
qed

lemma differ_only_in_case_lower:
  assumes "differ_only_in_case u s t" and "931 \<notin> set s" and "931 \<notin> set t"
  shows "toLowerCase u s = toLowerCase u t"
  using assms unfolding differ_only_in_case_def toLowerCase_def
  by (rule lower_from_same_letters)

lemma differ_only_in_case_empty: "differ_only_in_case u s t \<Longrightarrow> (s = []) = (t = [])"
  by (auto simp add: differ_only_in_case_def)

text \<open>What an upsert with a string and a valid date does when the query goes through.\<close>

lemma upsertLicense_succeeds:
  assumes "\<not> query_fails e"
  shows "\<exists>lic d'. upsertLicense e (JStr s) c sub (Some x) a d = Inr (lic, d')"
  using assms by (simp add: upsertLicense_def Let_def)


lemma user_example:
  "differ_only_in_case (unicode env1) (ascii ''User@Example.com'') (ascii ''user@example.com'')"
  "931 \<notin> set (ascii ''User@Example.com'')" "931 \<notin> set (ascii ''user@example.com'')"
  by (simp_all only: unicode_env) code_simp+

lemma lower_user:
  "toLowerCase ucd_part (ascii ''User@Example.com'') = ascii ''user@example.com''"
  by code_simp

lemma checkout_user:
  "upsertLicense env1 (JStr (ascii ''User@Example.com'')) (Some ''cus_3'') (Some ''sub_3'')
       (Some 1702592000000) True db_four = Inr (lic_user, db_user)"
  by (simp add: upsertLicense_def Let_def lower_user env1_def db_four_def lic_user_def
      db_user_def)


text \<open>Capital and small sigma are the two cases of one letter, and a grant under the
  word in capitals is stored under the word with the final sigma: the query under the
  capitals finds the license, the query under the small letters finds none.\<close>

lemma lower_odos:
  "toLowerCase ucd_part odos_capital = odos_final" "toLowerCase ucd_part odos_small = odos_small"
  by code_simp+

lemma odos_differ: "differ_only_in_case ucd_part odos_capital odos_small"
  by code_simp


section \<open>The webhook route\<close>

text \<open>After the signature check the handler acknowledges every event, and an event of a
  kind other than the three of the \<^verbatim>\<open>switch\<close> leaves the table as it was.\<close>

lemma stripe_webhook_handler_acknowledges:
  "fst (stripe_webhook_handler e ev d) = \<lparr>status = 200, payload = Received\<rparr>"
  by (simp add: stripe_webhook_handler_def split: sum.splits prod.splits)

lemma stripe_webhook_handler_ignores_other:
  "stripe_webhook_handler e (OtherEvent kind) d = (\<lparr>status = 200, payload = Received\<rparr>, d)"
  by (simp add: stripe_webhook_handler_def webhook_switch_def)

text \<open>A request whose \<^verbatim>\<open>constructEvent\<close> throws is answered with status 400 and changes
  nothing.\<close>

lemma stripe_webhook_rejects_failed_check:
  assumes "bodyParser_json req = Inr st"
    and "constructEvent e (snd (bodyParser_raw req st)) (stripe_signature req) = Inl err"
  shows "stripe_webhook e req d = (\<lparr>status = 400, payload = Text ''Invalid signature.''\<rparr>, d)"
  using assms by (simp add: stripe_webhook_def)

text \<open>The body that reaches \<^verbatim>\<open>constructEvent\<close> is never the buffer of raw bytes: the JSON
  parser, which runs first, has either read the body or left it to a raw parser that
  takes the same type and so leaves it as well.\<close>

lemma body_is_never_raw:
  assumes "bodyParser_json req = Inr st"
  shows "snd (bodyParser_raw req st) \<noteq> Buffer raw"
  using assms by (auto simp add: bodyParser_json_def bodyParser_raw_def split: if_splits)

lemma stripe_webhook_never_acknowledges:
  "status (fst (stripe_webhook e req d)) = 400 \<and> snd (stripe_webhook e req d) = d"
proof (cases "bodyParser_json req")
  case (Inl err)
  then show ?thesis by (simp add: stripe_webhook_def)
next
  case (Inr st)
  then have "\<And>raw. snd (bodyParser_raw req st) \<noteq> Buffer raw"
    by (rule body_is_never_raw)
  then have "constructEvent e (snd (bodyParser_raw req st)) (stripe_signature req)
      = Inl SignatureVerificationError"
    by (cases "snd (bodyParser_raw req st)") (auto simp add: constructEvent_def)
  with Inr show ?thesis by (simp add: stripe_webhook_def)
qed

text \<open>
  C1. The webhook is to refuse a request exactly when the signature check of its raw
  payload fails. The route as registered refuses the request below, whose signature is
  the one the secret gives for its raw payload: the payload is JSON, the JSON parser
  has replaced \<^verbatim>\<open>req.body\<close> with the parsed object, and
  \<^verbatim>\<open>constructEvent\<close> throws on it. The answer is 400 and the table is unchanged,
  where the handler would have acknowledged the event and set Carol's row inactive.
\<close>

theorem stripe_webhook_refuses_signed_event:
  "signed_event env1 (raw_payload req_signed) (stripe_signature req_signed) =
     Some (CustomerSubscriptionDeleted ''cus_1'') \<and>
   stripe_webhook env1 req_signed db_four =
     (\<lparr>status = 400, payload = Text ''Invalid signature.''\<rparr>, db_four) \<and>
   stripe_webhook_handler env1 (CustomerSubscriptionDeleted ''cus_1'') db_four =
     (\<lparr>status = 200, payload = Received\<rparr>,
      db_four\<lparr>rows := (rows db_four)((ascii ''carol@x.com'') \<mapsto> lic_carol_canceled), next_id := 6\<rparr>)"
proof (intro conjI)
  show "signed_event env1 (raw_payload req_signed) (stripe_signature req_signed) =
      Some (CustomerSubscriptionDeleted ''cus_1'')"
    by (simp add: env1_def req_signed_def verifier_def)
  show "stripe_webhook env1 req_signed db_four =
      (\<lparr>status = 400, payload = Text ''Invalid signature.''\<rparr>, db_four)"
    by (simp add: stripe_webhook_def bodyParser_json_def bodyParser_raw_def constructEvent_def
        req_signed_def)
  show "stripe_webhook_handler env1 (CustomerSubscriptionDeleted ''cus_1'') db_four =
      (\<lparr>status = 200, payload = Received\<rparr>,
       db_four\<lparr>rows := (rows db_four)((ascii ''carol@x.com'') \<mapsto> lic_carol_canceled), next_id := 6\<rparr>)"
    by (simp add: handler_defs scenario_defs lower_carol rows_db_four lic_carol_canceled_def
        lic_carol_def)
qed

end
